theory Spec2Isabelle
  imports Main "HOL-Library.Sublist" "HOL-Library.Monad_Syntax"
begin

section \<open>Python values\<close>

subsection \<open>Strings\<close>

text \<open>
  Identifiers, data types and query details are Python \<open>str\<close> values. They are modelled
  as byte strings (a code point beyond ASCII is its UTF-8 bytes): \<open>a in b\<close> on two
  strings is contiguous containment (\<^const>\<open>sublist\<close>), \<open>b.startswith(a)\<close> is
  \<^const>\<open>prefix\<close>, and \<open>s.replace(a, b)\<close> on single characters maps over the string.

  \<open>lower\<close> is \<open>str.lower\<close> on ASCII strings: it folds the letters \<open>A\<close>..\<open>Z\<close> and
  leaves every other byte as it is. Python's \<open>str.lower\<close> also lowers the cased code
  points beyond ASCII, so the two differ on such strings. The executable model runs
  with \<open>lower\<close>; where a property is about every input string of a normaliser, the
  lowering function is a parameter of the normaliser instead (see the section on the
  normalisers over \<open>str.lower\<close>).
\<close>

definition lower_char :: "char \<Rightarrow> char" where
  "lower_char c =
     (let n = (of_char c :: nat) in if 65 \<le> n \<and> n \<le> 90 then char_of (n + 32) else c)"

definition lower :: "string \<Rightarrow> string" where
  "lower s = map lower_char s"

definition replace_char :: "char \<Rightarrow> char \<Rightarrow> string \<Rightarrow> string" where
  "replace_char a b s = map (\<lambda>c. if c = a then b else c) s"

text \<open>
  \<open>s.split(sep)\<close> for a non-empty separator: the pieces between the occurrences of
  \<open>sep\<close>, found left to right. \<open>cur\<close> is the piece being read.
\<close>

function split_py :: "string \<Rightarrow> string \<Rightarrow> string \<Rightarrow> string list" where
  "split_py sep cur s =
     (if s = [] then [cur]
      else if sep \<noteq> [] \<and> prefix sep s then cur # split_py sep [] (drop (length sep) s)
      else split_py sep (cur @ [hd s]) (tl s))"
  by pat_completeness auto
termination
  by (relation "measure (\<lambda>(sep, cur, s). length s)") auto

text \<open>\<open>'{s}'\<close> inside an f-string: the string between two single quotes.\<close>

definition quoted :: "string \<Rightarrow> string" where
  "quoted s = [CHR 0x27] @ s @ [CHR 0x27]"

text \<open>\<open>sep.join(xs)\<close> on a list of strings.\<close>

fun join :: "string \<Rightarrow> string list \<Rightarrow> string" where
  "join sep [] = []"
| "join sep [x] = x"
| "join sep (x # y # ys) = x @ sep @ join sep (y # ys)"

subsection \<open>JSON-like values\<close>

text \<open>
  The records of the data sets, the payloads and the envelopes are Python dictionaries,
  lists, strings and numbers. A float literal of the source is kept as its decimal
  mantissa and exponent (\<open>185.3\<close> is \<open>JFloat 1853 (-1)\<close>). A dictionary is an association
  list in the order the source writes it; \<open>d[k]\<close> is \<^const>\<open>map_of\<close>, where \<open>None\<close>
  stands for the \<open>KeyError\<close>.
\<close>

datatype jval =
    JNone
  | JBool bool
  | JInt int
  | JFloat int int
  | JStr string
  | JList "jval list"
  | JDict "(string \<times> jval) list"

type_synonym pydict = "(string \<times> jval) list"

text \<open>Truth value of a Python object, as \<open>if x:\<close> and \<open>x or y\<close> test it.\<close>

fun truthy :: "jval \<Rightarrow> bool" where
  "truthy JNone = False"
| "truthy (JBool b) = b"
| "truthy (JInt n) = (n \<noteq> 0)"
| "truthy (JFloat m e) = (m \<noteq> 0)"
| "truthy (JStr s) = (s \<noteq> [])"
| "truthy (JList xs) = (xs \<noteq> [])"
| "truthy (JDict d) = (d \<noteq> [])"

definition py_or :: "jval \<Rightarrow> jval \<Rightarrow> jval" where
  "py_or a b = (if truthy a then a else b)"

text \<open>\<open>d.get(k, default)\<close> and \<open>d.get(k)\<close>.\<close>

definition get_or :: "pydict \<Rightarrow> string \<Rightarrow> jval \<Rightarrow> jval" where
  "get_or d k dflt = (case map_of d k of Some v \<Rightarrow> v | None \<Rightarrow> dflt)"

definition get :: "pydict \<Rightarrow> string \<Rightarrow> jval" where
  "get d k = get_or d k JNone"

text \<open>
  \<open>', '.join(v)\<close> on a value read from a record: the elements of a list must all be
  strings (\<open>TypeError\<close> otherwise, here \<open>None\<close>); a dictionary is joined over its keys, a
  string over its characters.
\<close>

fun the_strs :: "jval list \<Rightarrow> string list option" where
  "the_strs [] = Some []"
| "the_strs (JStr s # vs) = map_option (\<lambda>ss. s # ss) (the_strs vs)"
| "the_strs (v # vs) = None"

fun join_value :: "string \<Rightarrow> jval \<Rightarrow> string option" where
  "join_value sep (JList vs) = map_option (join sep) (the_strs vs)"
| "join_value sep (JDict d) = Some (join sep (map fst d))"
| "join_value sep (JStr s) = Some (join sep (map (\<lambda>c. [c]) s))"
| "join_value sep v = None"

subsection \<open>What a call reads from outside\<close>

text \<open>
  The resolvers call the standard library, the clock and the network. One record holds
  what a single call of the router obtains from them:
  \<^item> \<open>sha256_json d\<close> is \<open>hashlib.sha256(json.dumps(d).encode()).hexdigest()\<close>;
  \<^item> \<open>b32encode s\<close> is \<open>base64.b32encode(s.encode()).decode()\<close>;
  \<^item> \<open>py_str v\<close> is \<open>str(v)\<close> for a value that is not a string, as an f-string prints it;
  \<^item> \<open>utc_iso\<close> is \<open>datetime.utcnow().isoformat()\<close> at the router's entry;
  \<^item> \<open>utc_check\<close> and \<open>utc_store\<close> are the two later readings of \<open>datetime.utcnow()\<close>,
    in microseconds: the one the cache test compares with \<open>cached_at\<close>, and the one a new
    cache entry is stamped with;
  \<^item> \<open>http_get url\<close> is the outcome of the one request the price resolver sends.
\<close>

datatype http_outcome =
    HTTPStatusError string string
  | RequestError string
  | OtherException string
  | JsonBody jval

record env =
  sha256_json :: "pydict \<Rightarrow> string"
  b32encode :: "string \<Rightarrow> string"
  py_str :: "jval \<Rightarrow> string"
  utc_iso :: string
  utc_check :: int
  utc_store :: int
  http_get :: "string \<Rightarrow> http_outcome"

text \<open>A value inside an f-string: a string prints as itself.\<close>

definition fstr :: "env \<Rightarrow> jval \<Rightarrow> string" where
  "fstr E v = (case v of JStr s \<Rightarrow> s | _ \<Rightarrow> py_str E v)"

subsection \<open>The caches\<close>

text \<open>
  Each resolver module owns a global dictionary from cache key to
  \<open>{"data": record, "cached_at": datetime}\<close>. Only records of the data sets are ever
  stored, so \<open>data\<close> is a dictionary.
\<close>

record cache_entry =
  data :: pydict
  cached_at :: int

type_synonym cache = "string \<rightharpoonup> cache_entry"

definition CACHE_EXPIRY_SECONDS :: int where
  "CACHE_EXPIRY_SECONDS = 300"

text \<open>
  \<open>cache_key in cache and (datetime.utcnow() - cache[cache_key]["cached_at"]).total_seconds()
  < CACHE_EXPIRY_SECONDS\<close>, with times in microseconds.
\<close>

definition cache_fresh :: "env \<Rightarrow> cache \<Rightarrow> string \<Rightarrow> bool" where
  "cache_fresh E c key =
     (case c key of
        Some e \<Rightarrow> utc_check E - cached_at e < CACHE_EXPIRY_SECONDS * 1000000
      | None \<Rightarrow> False)"

text \<open>
  The cache block of \<open>fetch_carbon_footprint\<close> (lines 167-180), which
  \<open>fetch_education_credential\<close> (lines 22-90) and \<open>fetch_supply_chain_status\<close>
  (lines 20-112) repeat: a fresh entry is returned; otherwise the record is looked up in
  the data set (\<open>stored\<close> is the result of that lookup) and, when it is there, stored
  under the key with a new time stamp.
\<close>

definition lookup_with_cache ::
  "env \<Rightarrow> cache \<Rightarrow> string \<Rightarrow> pydict option \<Rightarrow> cache \<times> pydict option" where
  "lookup_with_cache E c key stored =
     (if cache_fresh E c key then (c, map_option data (c key))
      else (case stored of
              Some d \<Rightarrow> (c(key \<mapsto> \<lparr>data = d, cached_at = utc_store E\<rparr>), Some d)
            | None \<Rightarrow> (c, None)))"

text \<open>
  The cache block of \<open>fetch_reputation_score\<close> (lines 223-235): the record comes from
  \<open>.get(reputation_aspect)\<close> and is stored only when it is truthy.
\<close>

definition reputation_lookup_with_cache ::
  "env \<Rightarrow> cache \<Rightarrow> string \<Rightarrow> pydict option \<Rightarrow> cache \<times> pydict option" where
  "reputation_lookup_with_cache E c key stored =
     (if cache_fresh E c key then (c, map_option data (c key))
      else (case stored of
              Some d \<Rightarrow>
                (if d \<noteq> [] then (c(key \<mapsto> \<lparr>data = d, cached_at = utc_store E\<rparr>), Some d)
                 else (c, Some d))
            | None \<Rightarrow> (c, None)))"

section \<open>Carbon footprint resolver (\<open>carbon_footprint.py\<close>)\<close>

definition normalize_carbon_identifier :: "string \<Rightarrow> string" where
  "normalize_carbon_identifier identifier =
     (if identifier = [] then identifier else lower identifier)"

text \<open>
  The three keys of \<open>simulated_carbon_data\<close>. The source indexes the data set only with
  the literals \<open>"product"\<close>, \<open>"company"\<close> and \<open>"activity"\<close>.
\<close>

datatype scope = Product | Company | Activity

fun scope_name :: "scope \<Rightarrow> string" where
  "scope_name Product = ''product''"
| "scope_name Company = ''company''"
| "scope_name Activity = ''activity''"

fun simulated_carbon_data :: "scope \<Rightarrow> (string \<times> pydict) list" where
  "simulated_carbon_data Product =
    [(''macbook_pro'',
       [(''name'', JStr ''EcoBook Pro 2023''),
        (''manufacturer'', JStr ''GreenTech Inc.''),
        (''totalFootprint'', JFloat 1853 (-1)),
        (''footprintBreakdown'', JDict
          [(''manufacturing'', JFloat 1428 (-1)),
           (''transportation'', JFloat 125 (-1)),
           (''usage'', JFloat 300 (-1)),
           (''endOfLife'', JFloat 0 (-1))]),
        (''certifications'', JList [JStr ''Carbon Trust'', JStr ''Energy Star'', JStr ''EPEAT Gold'']),
        (''methodology'', JStr ''ISO 14067 / GHG Protocol''),
        (''verificationBody'', JStr ''ClimateVerify Alliance''),
        (''verificationDate'', JStr ''2023-07-15'')]),
      (''sustainable_blend'',
       [(''name'', JStr ''Sustainable Blend Coffee''),
        (''manufacturer'', JStr ''EcoBeans Co.''),
        (''totalFootprint'', JFloat 15 (-2)),
        (''footprintBreakdown'', JDict
          [(''farming'', JFloat 5 (-2)),
           (''processing'', JFloat 3 (-2)),
           (''packaging'', JFloat 2 (-2)),
           (''transportation'', JFloat 4 (-2)),
           (''preparation'', JFloat 1 (-2))]),
        (''offsetting'', JStr ''100% offset through verified reforestation projects''),
        (''certifications'', JList [JStr ''Rainforest Alliance'', JStr ''Carbon Neutral Product'']),
        (''methodology'', JStr ''PAS 2050''),
        (''verificationBody'', JStr ''GreenCertify DAO''),
        (''verificationDate'', JStr ''2023-08-10'')])]"
| "simulated_carbon_data Company =
    [(''greencorp'',
       [(''name'', JStr ''GreenCorp Technologies''),
        (''industry'', JStr ''Technology''),
        (''totalEmissions'', JFloat 125000 (-1)),
        (''emissionsBreakdown'', JDict
          [(''scope1'', JFloat 20000 (-1)),
           (''scope2'', JFloat 80000 (-1)),
           (''scope3'', JFloat 25000 (-1))]),
        (''reductionTarget'', JStr ''50% by 2030, Net Zero by 2040''),
        (''verificationStandard'', JStr ''GHG Protocol Corporate Standard''),
        (''verifier'', JStr ''ClimateAccounting Consortium''),
        (''verificationDate'', JStr ''2023-04-20'')]),
      (''fashion_forward'',
       [(''name'', JStr ''FashionX Sustainable Apparel''),
        (''industry'', JStr ''Fashion''),
        (''totalEmissions'', JFloat 187000 (-1)),
        (''emissionsBreakdown'', JDict
          [(''scope1'', JFloat 12000 (-1)),
           (''scope2'', JFloat 45000 (-1)),
           (''scope3'', JFloat 130000 (-1))]),
        (''reductionActions'', JList
          [JStr ''100% renewable energy in owned facilities'',
           JStr ''Sustainable materials sourcing'',
           JStr ''Supply chain optimization'']),
        (''reductionTarget'', JStr ''Net Zero by 2035''),
        (''verificationStandard'', JStr ''Science Based Targets initiative (SBTi)''),
        (''verifier'', JStr ''SustainableVerify Network''),
        (''verificationDate'', JStr ''2023-03-15'')])]"
| "simulated_carbon_data Activity =
    [(''london_nyc_flight'',
       [(''type'', JStr ''Flight''),
        (''route'', JStr ''London to New York (economy)''),
        (''distance'', JInt 5585),
        (''footprint'', JFloat 9860 (-1)),
        (''calculationMethod'', JStr ''DEFRA 2023 emission factors''),
        (''verifier'', JStr ''TravelImpact Verifiers''),
        (''offsetOptions'', JList
          [JDict
             [(''project'', JStr ''Wind Energy India''),
              (''cost'', JStr ([CHR 0xE2, CHR 0x82, CHR 0xAC] @ ''12.50''))],
           JDict
             [(''project'', JStr ''Reforestation Brazil''),
              (''cost'', JStr ([CHR 0xE2, CHR 0x82, CHR 0xAC] @ ''15.75''))]])]),
      (''california_electricity'',
       [(''type'', JStr ''Electricity Consumption''),
        (''location'', JStr ''California, USA''),
        (''amount'', JInt 1000),
        (''footprint'', JFloat 2100 (-1)),
        (''gridMix'', JDict
          [(''renewable'', JFloat 330 (-1)),
           (''natural_gas'', JFloat 400 (-1)),
           (''nuclear'', JFloat 150 (-1)),
           (''coal'', JFloat 100 (-1)),
           (''other'', JFloat 20 (-1))]),
        (''calculationMethod'', JStr ''eGRID 2022 (location-based)''),
        (''verifier'', JStr ''GridImpact Alliance''),
        (''verificationDate'', JStr ''2023-02-10'')])]"

text \<open>Lines 135-142: the scope named in \<open>query_details\<close>.\<close>

definition requested_scope :: "string option \<Rightarrow> scope option" where
  "requested_scope query_details =
     (case query_details of
        None \<Rightarrow> None
      | Some qd \<Rightarrow>
          if qd = [] then None
          else if sublist ''scope=company'' qd then Some Company
          else if sublist ''scope=product'' qd then Some Product
          else if sublist ''scope=activity'' qd then Some Activity
          else None)"

text \<open>
  \<open>normalized_identifier in simulated_carbon_data[scope]\<close>, and lines 145-149: the first
  scope of \<open>["product", "company", "activity"]\<close> that holds the identifier. The scan is
  written over the membership test \<open>present\<close>.
\<close>

definition in_scope :: "string \<Rightarrow> scope \<Rightarrow> bool" where
  "in_scope nid s = (map_of (simulated_carbon_data s) nid \<noteq> None)"

definition detect_scope :: "(scope \<Rightarrow> bool) \<Rightarrow> scope option" where
  "detect_scope present = find present [Product, Company, Activity]"

text \<open>Lines 155-162: the scope the lookup uses.\<close>

definition choose_scope :: "(scope \<Rightarrow> bool) \<Rightarrow> scope option \<Rightarrow> scope option \<Rightarrow> scope" where
  "choose_scope present requested detected =
     (if (case requested of Some r \<Rightarrow> present r | None \<Rightarrow> False)
      then (case requested of Some r \<Rightarrow> r | None \<Rightarrow> Product)
      else (case detected of Some d \<Rightarrow> d | None \<Rightarrow> Product))"

definition carbon_data_scope :: "string \<Rightarrow> string option \<Rightarrow> scope" where
  "carbon_data_scope nid query_details =
     choose_scope (in_scope nid) (requested_scope query_details) (detect_scope (in_scope nid))"

definition carbon_cache_key :: "scope \<Rightarrow> string \<Rightarrow> string" where
  "carbon_cache_key s nid = ''carbon_'' @ scope_name s @ ''_'' @ nid"

text \<open>Lines 184-188: the simulated verification proof.\<close>

definition carbon_verification_proof :: "env \<Rightarrow> pydict \<Rightarrow> string \<Rightarrow> jval" where
  "carbon_verification_proof E carbon_data timestamp =
     JDict [(''method'', JStr ''Multi-Attestation Protocol''),
            (''hash'', JStr (sha256_json E carbon_data)),
            (''timestamp'', JStr timestamp)]"

text \<open>Lines 191-247: the payload, by scope. \<open>None\<close> is a \<open>KeyError\<close> on a missing field.\<close>

fun carbon_payload :: "env \<Rightarrow> scope \<Rightarrow> pydict \<Rightarrow> string \<Rightarrow> pydict option" where
  "carbon_payload E Product carbon_data timestamp =
     do {
       name \<leftarrow> map_of carbon_data ''name'';
       manufacturer \<leftarrow> map_of carbon_data ''manufacturer'';
       total \<leftarrow> map_of carbon_data ''totalFootprint'';
       breakdown \<leftarrow> map_of carbon_data ''footprintBreakdown'';
       Some [(''productInfo'', JDict [(''name'', name), (''manufacturer'', manufacturer)]),
             (''carbonFootprint'',
                JDict [(''total'', total), (''unit'', JStr ''kg CO2e''),
                       (''breakdown'', breakdown)]),
             (''certifications'', get_or carbon_data ''certifications'' (JList [])),
             (''verification'',
                JDict [(''methodology'', get_or carbon_data ''methodology'' (JStr [])),
                       (''verifier'', get_or carbon_data ''verificationBody'' (JStr [])),
                       (''date'', get_or carbon_data ''verificationDate'' (JStr [])),
                       (''proof'', carbon_verification_proof E carbon_data timestamp)])]
     }"
| "carbon_payload E Company carbon_data timestamp =
     do {
       name \<leftarrow> map_of carbon_data ''name'';
       industry \<leftarrow> map_of carbon_data ''industry'';
       total \<leftarrow> map_of carbon_data ''totalEmissions'';
       breakdown \<leftarrow> map_of carbon_data ''emissionsBreakdown'';
       Some [(''companyInfo'', JDict [(''name'', name), (''industry'', industry)]),
             (''emissions'',
                JDict [(''total'', total), (''unit'', JStr ''metric tons CO2e''),
                       (''breakdown'', breakdown)]),
             (''targets'', get_or carbon_data ''reductionTarget'' (JStr [])),
             (''verification'',
                JDict [(''standard'', get_or carbon_data ''verificationStandard'' (JStr [])),
                       (''verifier'', get_or carbon_data ''verifier'' (JStr [])),
                       (''date'', get_or carbon_data ''verificationDate'' (JStr [])),
                       (''proof'', carbon_verification_proof E carbon_data timestamp)])]
     }"
| "carbon_payload E Activity carbon_data timestamp =
     do {
       ty \<leftarrow> map_of carbon_data ''type'';
       footprint \<leftarrow> map_of carbon_data ''footprint'';
       Some [(''activityInfo'',
                JDict [(''type'', ty),
                       (''details'',
                          py_or (get_or carbon_data ''route'' (JStr []))
                                (get_or carbon_data ''location'' (JStr [])))]),
             (''carbonFootprint'',
                JDict [(''total'', footprint), (''unit'', JStr ''kg CO2e''),
                       (''distance'', get_or carbon_data ''distance'' JNone),
                       (''amount'', get_or carbon_data ''amount'' JNone)]),
             (''methodology'', get_or carbon_data ''calculationMethod'' (JStr [])),
             (''verification'',
                JDict [(''verifier'', get_or carbon_data ''verifier'' (JStr [])),
                       (''date'', get_or carbon_data ''verificationDate'' (JStr [])),
                       (''proof'', carbon_verification_proof E carbon_data timestamp)])]
     }"

text \<open>Line 254: the summary of a successful lookup.\<close>

definition carbon_summary :: "env \<Rightarrow> pydict \<Rightarrow> string" where
  "carbon_summary E carbon_data =
     ''Carbon footprint data verified following ''
     @ fstr E (get_or carbon_data ''methodology''
                (get_or carbon_data ''verificationStandard'' (JStr ''international standards'')))
     @ '' by ''
     @ fstr E (get_or carbon_data ''verificationBody''
                (get_or carbon_data ''verifier'' (JStr ''accredited verifier'')))
     @ ''.''"

text \<open>Lines 259-266: the message of a failed lookup.\<close>

definition carbon_error_message :: "scope option \<Rightarrow> scope option \<Rightarrow> string \<Rightarrow> string" where
  "carbon_error_message requested detected identifier =
     (case requested of
        Some r \<Rightarrow>
          ''No carbon footprint information found for '' @ scope_name r
          @ '' identifier '' @ quoted identifier @ ''.''
      | None \<Rightarrow>
          (case detected of
             None \<Rightarrow>
               ''No carbon footprint information found for identifier '' @ quoted identifier
               @ '' in any scope ('' @ join '', '' [''product'', ''company'', ''activity'']
               @ '').''
           | Some d \<Rightarrow>
               ''Error retrieving carbon footprint information for '' @ scope_name d
               @ '' '' @ quoted identifier @ ''.''))"

text \<open>Lines 249-256 and 268-276: the two dictionaries the resolver returns.\<close>

definition carbon_success ::
  "env \<Rightarrow> scope \<Rightarrow> pydict \<Rightarrow> string \<Rightarrow> string \<Rightarrow> pydict option" where
  "carbon_success E data_scope carbon_data identifier timestamp =
     do {
       data_payload \<leftarrow> carbon_payload E data_scope carbon_data timestamp;
       Some [(''request_data_type'', JStr ''carbon_footprint''),
             (''request_identifier'', JStr identifier),
             (''source_description'', JStr ''Verified Carbon Accounting Network''),
             (''data_payload'', JDict data_payload),
             (''verification_summary'', JStr (carbon_summary E carbon_data)),
             (''timestamp'', JStr timestamp)]
     }"

definition carbon_failure :: "scope option \<Rightarrow> scope option \<Rightarrow> string \<Rightarrow> string \<Rightarrow> pydict" where
  "carbon_failure requested detected identifier timestamp =
     [(''request_data_type'', JStr ''carbon_footprint''),
      (''request_identifier'', JStr identifier),
      (''source_description'', JStr ''Carbon Footprint Verification Network''),
      (''data_payload'', JDict []),
      (''verification_summary'', JStr ''No carbon footprint data found.''),
      (''timestamp'', JStr timestamp),
      (''error_message'', JStr (carbon_error_message requested detected identifier))]"

text \<open>
  \<open>fetch_carbon_footprint(identifier, query_details, timestamp)\<close>: the new cache and the
  returned dictionary (\<open>None\<close> when the call raises).
\<close>

definition fetch_carbon_footprint ::
  "env \<Rightarrow> cache \<Rightarrow> string \<Rightarrow> string option \<Rightarrow> string \<Rightarrow> cache \<times> pydict option" where
  "fetch_carbon_footprint E c identifier query_details timestamp =
     (let normalized_identifier = normalize_carbon_identifier identifier;
          requested = requested_scope query_details;
          detected = detect_scope (in_scope normalized_identifier);
          data_scope = choose_scope (in_scope normalized_identifier) requested detected;
          cache_key = carbon_cache_key data_scope normalized_identifier;
          (c', carbon_data) =
             lookup_with_cache E c cache_key
               (map_of (simulated_carbon_data data_scope) normalized_identifier)
      in (c',
          case carbon_data of
            Some d \<Rightarrow>
              if d \<noteq> [] then carbon_success E data_scope d identifier timestamp
              else Some (carbon_failure requested detected identifier timestamp)
          | None \<Rightarrow> Some (carbon_failure requested detected identifier timestamp)))"

section \<open>Reputation resolver (\<open>reputation_score.py\<close>)\<close>

text \<open>The alias table \<open>name_mappings\<close> of \<open>normalize_reputation_identifier\<close>.\<close>

definition name_mappings :: "(string \<times> string) list" where
  "name_mappings =
     [(''decentragov_dao'', ''decentra_dao''),
      (''decentragov'', ''decentra_dao''),
      (''decentra_gov_dao'', ''decentra_dao''),
      (''decentrag_dao'', ''decentra_dao''),
      (''alex_rodriguez'', ''alex_developer''),
      (''alex'', ''alex_developer''),
      (''rodriguez'', ''alex_developer'')]"

definition normalize_reputation_identifier :: "string \<Rightarrow> string" where
  "normalize_reputation_identifier identifier =
     (if identifier = [] then identifier
      else (let identifier' = lower identifier
            in case map_of name_mappings identifier' of
                 Some mapped \<Rightarrow> mapped
               | None \<Rightarrow> identifier'))"

text \<open>\<open>simulated_reputation_data\<close>: entity, then aspect, then record.\<close>

definition simulated_reputation_data :: "(string \<times> (string \<times> pydict) list) list" where
  "simulated_reputation_data =
     [(''alex_developer'',
       [(''general'',
         [(''name'', JStr ''Alex Rodriguez''),
          (''did'', JStr ''did:fetch:alex_developer''),
          (''overallScore'', JInt 92),
          (''activeScoreProof'', JStr ''bafybeigdyrzt5sfp7udm7hu76uh7y26nf3efuylqabf3oclgtqy55fbzdi''),
          (''contributionStats'', JDict
            [(''totalContributions'', JInt 215),
             (''projectsContributed'', JInt 12),
             (''firstContribution'', JStr ''2021-02-18'')]),
          (''reputationBreakdown'', JDict
            [(''codeQuality'', JInt 95),
             (''projectCompletion'', JInt 90),
             (''communityEngagement'', JInt 88),
             (''documentation'', JInt 85)]),
          (''topSkills'', JList [JStr ''Rust'', JStr ''Smart Contracts'', JStr ''Agent Development'']),
          (''verificationMethod'', JStr ''Multi-Source Attestation''),
          (''attesters'', JList [JStr ''GitHub'', JStr ''Fetch.ai Network'', JStr ''DevDAO''])]),
        (''developer'',
         [(''name'', JStr ''Alex Rodriguez''),
          (''did'', JStr ''did:fetch:alex_developer''),
          (''developerScore'', JInt 95),
          (''codeStats'', JDict
            [(''repositories'', JInt 32),
             (''pullRequests'', JInt 287),
             (''codeReviews'', JInt 342),
             (''issuesClosed'', JInt 156)]),
          (''languages'', JList
            [JDict
               [(''name'', JStr ''Rust''),
                (''proficiency'', JInt 98)],
             JDict
               [(''name'', JStr ''Python''),
                (''proficiency'', JInt 92)],
             JDict
               [(''name'', JStr ''Solidity''),
                (''proficiency'', JInt 88)]]),
          (''significantProjects'', JList
            [JDict
               [(''name'', JStr ''Agent Framework Extension''),
                (''role'', JStr ''Lead Developer''),
                (''impact'', JStr ''High'')],
             JDict
               [(''name'', JStr ''Smart Contract Auditing Tool''),
                (''role'', JStr ''Contributor''),
                (''impact'', JStr ''Medium'')]]),
          (''verificationMethod'', JStr ''Code Repository Analysis + Peer Attestation''),
          (''attesters'', JList [JStr ''GitHub'', JStr ''GitLab'', JStr ''Code Review DAO''])])]),
      (''decentra_dao'',
       [(''general'',
         [(''name'', JStr ''DecentraGov DAO''),
          (''did'', JStr ''did:fetch:decentra_dao''),
          (''overallScore'', JInt 89),
          (''activeScoreProof'', JStr ''bafybeihkqhjuk6bnlr6xmqkxheh4oewvqllzwgv3vdgdsfyqgd6d2hld7e''),
          (''governanceStats'', JDict
            [(''members'', JInt 1250),
             (''proposalsCreated'', JInt 87),
             (''votingParticipation'', JStr ''68%''),
             (''treasurySize'', JStr ''485,000 USDC'')]),
          (''reputationBreakdown'', JDict
            [(''transparency'', JInt 94),
             (''proposalExecution'', JInt 87),
             (''communityEngagement'', JInt 91),
             (''fundManagement'', JInt 85)]),
          (''verificationMethod'', JStr ''On-Chain Governance Analysis''),
          (''attesters'', JList
            [JStr ''DAOstats'',
             JStr ''Governance Observer'',
             JStr ''Blockchain Analytics Network''])]),
        (''contributor'',
         [(''name'', JStr ''DecentraGov DAO''),
          (''did'', JStr ''did:fetch:decentra_dao''),
          (''contributorReputation'', JInt 91),
          (''contributionStats'', JDict
            [(''activeDuration'', JStr ''2.5 years''),
             (''contributorsReward'', JStr ''Fair (verified)''),
             (''onboardingQuality'', JStr ''Excellent''),
             (''retentionRate'', JStr ''78%'')]),
          (''significantContributions'', JList
            [JDict
               [(''name'', JStr ''Open Source AI Model''),
                (''type'', JStr ''Technology''),
                (''impact'', JStr ''High'')],
             JDict
               [(''name'', JStr ''Governance Framework''),
                (''type'', JStr ''Protocol''),
                (''impact'', JStr ''Medium'')]]),
          (''verificationMethod'', JStr ''Contributor Experience Verification''),
          (''attesters'', JList
            [JStr ''ContributorBoard'',
             JStr ''WorkDAO'',
             JStr ''Open Source Alliance''])])]),
      (''trustdata_service'',
       [(''general'',
         [(''name'', JStr ''TrustData Verification Service''),
          (''did'', JStr ''did:fetch:trustdata_service''),
          (''overallScore'', JInt 96),
          (''activeScoreProof'', JStr ''bafybeiczsscdsbs7ffqz55asqdf3smv6klcw3gofszvwlyarci47bgf354''),
          (''serviceStats'', JDict
            [(''uptime'', JStr ''99.98%''),
             (''users'', JInt 12850),
             (''launchDate'', JStr ''2022-05-15''),
             (''verifiedTransactions'', JInt 1287650)]),
          (''reputationBreakdown'', JDict
            [(''reliability'', JInt 98),
             (''accuracy'', JInt 97),
             (''security'', JInt 95),
             (''support'', JInt 92)]),
          (''verificationMethod'', JStr ''Service Quality Attestation''),
          (''attesters'', JList
            [JStr ''ServiceRating DAO'',
             JStr ''User Feedback Oracle'',
             JStr ''Security Audit Collective''])]),
        (''service'',
         [(''name'', JStr ''TrustData Verification Service''),
          (''did'', JStr ''did:fetch:trustdata_service''),
          (''serviceScore'', JInt 97),
          (''performanceMetrics'', JDict
            [(''responseTime'', JStr ''0.3 seconds (avg)''),
             (''dataAccuracy'', JStr ''99.7%''),
             (''costEfficiency'', JStr ''High''),
             (''securityIncidents'', JStr ''None (verified)'')]),
          (''complianceCertifications'', JList [JStr ''ISO 27001'', JStr ''GDPR Compliant'', JStr ''SOC 2'']),
          (''customerSatisfaction'', JStr ''4.8/5.0 (based on 825 verified reviews)''),
          (''verificationMethod'', JStr ''Independent Service Auditing''),
          (''attesters'', JList
            [JStr ''TechAudit Alliance'',
             JStr ''User Satisfaction Oracle'',
             JStr ''Compliance Verification Network''])])])]"

text \<open>Lines 185-192: the aspect named in \<open>query_details\<close>.\<close>

definition requested_aspect :: "string option \<Rightarrow> string option" where
  "requested_aspect query_details =
     (case query_details of
        None \<Rightarrow> None
      | Some qd \<Rightarrow>
          if qd = [] then None
          else if sublist ''aspect=developer'' qd then Some ''developer''
          else if sublist ''aspect=contributor'' qd then Some ''contributor''
          else if sublist ''aspect=service'' qd then Some ''service''
          else None)"

text \<open>
  Lines 199-218: the aspect to return, from the aspects the entity has
  (\<open>available_aspects\<close>, the keys of its entry), the requested aspect and the normalised
  identifier.
\<close>

definition select_aspect :: "string list \<Rightarrow> string option \<Rightarrow> string \<Rightarrow> string" where
  "select_aspect available_aspects requested normalized_identifier =
     (if (case requested of Some r \<Rightarrow> r \<in> set available_aspects | None \<Rightarrow> False)
        then (case requested of Some r \<Rightarrow> r | None \<Rightarrow> ''general'')
      else if ''developer'' \<in> set available_aspects
              \<and> sublist ''Developer'' (lower normalized_identifier)
        then ''developer''
      else if ''service'' \<in> set available_aspects
              \<and> sublist ''Service'' (lower normalized_identifier)
        then ''service''
      else if ''contributor'' \<in> set available_aspects
              \<and> sublist ''DAO'' (lower normalized_identifier)
        then ''contributor''
      else if prefix ''dev'' normalized_identifier \<and> ''developer'' \<in> set available_aspects
        then ''developer''
      else if prefix ''svc'' normalized_identifier \<and> ''service'' \<in> set available_aspects
        then ''service''
      else ''general'')"

definition reputation_cache_key :: "string \<Rightarrow> string \<Rightarrow> string" where
  "reputation_cache_key nid aspect = ''reputation_'' @ nid @ ''_'' @ aspect"

text \<open>Lines 243-271: the payload. \<open>None\<close> is a \<open>KeyError\<close> on a missing field.\<close>

definition reputation_payload :: "pydict \<Rightarrow> string \<Rightarrow> pydict option" where
  "reputation_payload reputation_data timestamp =
     do {
       name \<leftarrow> map_of reputation_data ''name'';
       did \<leftarrow> map_of reputation_data ''did'';
       method \<leftarrow> map_of reputation_data ''verificationMethod'';
       attesters \<leftarrow> map_of reputation_data ''attesters'';
       Some [(''entityInfo'', JDict [(''name'', name), (''decentralizedId'', did)]),
             (''reputationScores'',
                JDict [(''overall'',
                          py_or (get reputation_data ''overallScore'')
                         (py_or (get reputation_data ''developerScore'')
                         (py_or (get reputation_data ''contributorReputation'')
                                (get reputation_data ''serviceScore'')))),
                       (''breakdown'', get_or reputation_data ''reputationBreakdown'' (JDict []))]),
             (''statistics'',
                py_or (get reputation_data ''contributionStats'')
               (py_or (get reputation_data ''codeStats'')
               (py_or (get reputation_data ''governanceStats'')
               (py_or (get reputation_data ''contributionStats'')
               (py_or (get reputation_data ''serviceStats'')
                      (get_or reputation_data ''performanceMetrics'' (JDict []))))))),
             (''highlights'',
                py_or (get reputation_data ''topSkills'')
               (py_or (get reputation_data ''significantProjects'')
               (py_or (get reputation_data ''significantContributions'')
                      (get_or reputation_data ''complianceCertifications'' (JList []))))),
             (''verification'',
                JDict [(''method'', method),
                       (''attesters'', attesters),
                       (''proofReference'', get_or reputation_data ''activeScoreProof'' (JStr [])),
                       (''timestamp'', JStr timestamp)])]
     }"

text \<open>Line 272: the summary of a successful lookup.\<close>

definition reputation_summary :: "env \<Rightarrow> pydict \<Rightarrow> string option" where
  "reputation_summary E reputation_data =
     do {
       method \<leftarrow> map_of reputation_data ''verificationMethod'';
       attesters \<leftarrow> map_of reputation_data ''attesters'';
       joined \<leftarrow> join_value '', '' attesters;
       Some (''Reputation data verified through '' @ fstr E method
             @ '' with attestations from '' @ joined @ ''.'')
     }"

text \<open>Lines 239-274, 174-182 and 278-286: the three dictionaries the resolver returns.\<close>

definition reputation_success :: "env \<Rightarrow> pydict \<Rightarrow> string \<Rightarrow> string \<Rightarrow> pydict option" where
  "reputation_success E reputation_data identifier timestamp =
     do {
       data_payload \<leftarrow> reputation_payload reputation_data timestamp;
       summary \<leftarrow> reputation_summary E reputation_data;
       Some [(''request_data_type'', JStr ''reputation_score''),
             (''request_identifier'', JStr identifier),
             (''source_description'', JStr ''Decentralized Reputation Network''),
             (''data_payload'', JDict data_payload),
             (''verification_summary'', JStr summary),
             (''timestamp'', JStr timestamp)]
     }"

definition reputation_unknown :: "string \<Rightarrow> string \<Rightarrow> pydict" where
  "reputation_unknown identifier timestamp =
     [(''request_data_type'', JStr ''reputation_score''),
      (''request_identifier'', JStr identifier),
      (''source_description'', JStr ''Decentralized Reputation Network''),
      (''data_payload'', JDict []),
      (''verification_summary'', JStr ''No reputation data found for this identifier.''),
      (''timestamp'', JStr timestamp),
      (''error_message'',
         JStr (''No reputation information found for identifier '' @ quoted identifier @ ''.''))]"

definition reputation_no_aspect :: "string list \<Rightarrow> string \<Rightarrow> string \<Rightarrow> string \<Rightarrow> pydict" where
  "reputation_no_aspect available_aspects reputation_aspect identifier timestamp =
     [(''request_data_type'', JStr ''reputation_score''),
      (''request_identifier'', JStr identifier),
      (''source_description'', JStr ''Decentralized Reputation Network''),
      (''data_payload'', JDict []),
      (''verification_summary'',
         JStr (''No reputation data found for aspect '' @ quoted reputation_aspect @ ''.'')),
      (''timestamp'', JStr timestamp),
      (''error_message'',
         JStr (''No reputation information found for identifier '' @ quoted identifier
               @ '' with aspect '' @ quoted reputation_aspect @ ''. Available aspects: ''
               @ join '', '' available_aspects @ ''.''))]"

text \<open>\<open>fetch_reputation_score(identifier, query_details, timestamp)\<close>.\<close>

definition fetch_reputation_score ::
  "env \<Rightarrow> cache \<Rightarrow> string \<Rightarrow> string option \<Rightarrow> string \<Rightarrow> cache \<times> pydict option" where
  "fetch_reputation_score E c identifier query_details timestamp =
     (let normalized_identifier = normalize_reputation_identifier identifier
      in case map_of simulated_reputation_data normalized_identifier of
           None \<Rightarrow> (c, Some (reputation_unknown identifier timestamp))
         | Some aspects \<Rightarrow>
             (let requested = requested_aspect query_details;
                  available_aspects = map fst aspects;
                  reputation_aspect =
                    select_aspect available_aspects requested normalized_identifier;
                  cache_key = reputation_cache_key normalized_identifier reputation_aspect;
                  (c', reputation_data) =
                     reputation_lookup_with_cache E c cache_key (map_of aspects reputation_aspect)
              in (c',
                  case reputation_data of
                    Some d \<Rightarrow>
                      if d \<noteq> [] then reputation_success E d identifier timestamp
                      else Some (reputation_no_aspect available_aspects reputation_aspect
                                   identifier timestamp)
                  | None \<Rightarrow>
                      Some (reputation_no_aspect available_aspects reputation_aspect
                              identifier timestamp))))"

section \<open>Education credentials resolver (\<open>education_credentials.py\<close>)\<close>

definition simulated_credentials :: "(string \<times> pydict) list" where
  "simulated_credentials =
    [(''john_smith'',
       [(''name'', JStr ''John Smith''),
        (''credentials'', JList
          [JDict
             [(''type'', JStr ''Degree''),
              (''name'', JStr ''Bachelor of Science in Computer Science''),
              (''issuer'', JStr ''Stanford University''),
              (''issueDate'', JStr ''2020-06-15''),
              (''verificationStatus'', JStr ''VERIFIED''),
              (''did'', JStr ''did:example:123456789abcdefghi''),
              (''proofMethod'', JStr ''BBS+ Signatures'')]])]),
      (''jane_doe'',
       [(''name'', JStr ''Jane Doe''),
        (''credentials'', JList
          [JDict
             [(''type'', JStr ''Certificate''),
              (''name'', JStr ''Blockchain Developer Certification''),
              (''issuer'', JStr ''Fetch.ai Academy''),
              (''issueDate'', JStr ''2023-02-10''),
              (''verificationStatus'', JStr ''VERIFIED''),
              (''did'', JStr ''did:example:987654321zyxwvuts''),
              (''proofMethod'', JStr ''Ed25519 Signature'')],
           JDict
             [(''type'', JStr ''Degree''),
              (''name'', JStr ''Master of Engineering''),
              (''issuer'', JStr ''MIT''),
              (''issueDate'', JStr ''2021-05-20''),
              (''verificationStatus'', JStr ''VERIFIED''),
              (''did'', JStr ''did:example:abcdef123456789''),
              (''proofMethod'', JStr ''ECDSA Signature'')]])]),
      (''alex_chen'',
       [(''name'', JStr ''Alex Chen''),
        (''credentials'', JList
          [JDict
             [(''type'', JStr ''Certification''),
              (''name'', JStr ''Fetch.ai Certified Agent Developer''),
              (''issuer'', JStr ''Fetch.ai Foundation''),
              (''issueDate'', JStr ''2023-11-05''),
              (''verificationStatus'', JStr ''VERIFIED''),
              (''did'', JStr ''did:example:fetchai12345''),
              (''proofMethod'', JStr ''Secp256k1 Signature'')]])])]"

definition education_cache_key :: "string \<Rightarrow> string" where
  "education_cache_key identifier = ''education_'' @ identifier"

text \<open>Lines 96-110 and 112-120: the two dictionaries the resolver returns.\<close>

definition education_success :: "env \<Rightarrow> pydict \<Rightarrow> string \<Rightarrow> string \<Rightarrow> pydict option" where
  "education_success E edu_data identifier timestamp =
     do {
       name \<leftarrow> map_of edu_data ''name'';
       credentials \<leftarrow> map_of edu_data ''credentials'';
       Some [(''request_data_type'', JStr ''education_credential''),
             (''request_identifier'', JStr identifier),
             (''source_description'',
                JStr ''Verifiable Credentials System (Decentralized Identity Network)''),
             (''data_payload'',
                JDict [(''profile'',
                          JDict [(''name'', name),
                                 (''identifierDid'',
                                    JStr (''did:fetch:''
                                          @ lower (take 16 (b32encode E identifier))))]),
                       (''credentials'', credentials),
                       (''verificationProof'', JStr (sha256_json E edu_data))]),
             (''verification_summary'',
                JStr (''Credentials verified using decentralized identity protocols. ''
                      @ ''Digital signatures validated against issuer DIDs.'')),
             (''timestamp'', JStr timestamp)]
     }"

definition education_failure :: "string \<Rightarrow> string \<Rightarrow> pydict" where
  "education_failure identifier timestamp =
     [(''request_data_type'', JStr ''education_credential''),
      (''request_identifier'', JStr identifier),
      (''source_description'', JStr ''Verifiable Credentials System''),
      (''data_payload'', JDict []),
      (''verification_summary'', JStr ''No verified credentials found for this identifier.''),
      (''timestamp'', JStr timestamp),
      (''error_message'',
         JStr (''No education credentials found for identifier '' @ quoted identifier @ ''.''))]"

text \<open>
  \<open>fetch_education_credential(identifier, query_details, timestamp)\<close>. The cache key and
  the lookup use \<open>identifier\<close> as it was passed.
\<close>

definition fetch_education_credential ::
  "env \<Rightarrow> cache \<Rightarrow> string \<Rightarrow> string option \<Rightarrow> string \<Rightarrow> cache \<times> pydict option" where
  "fetch_education_credential E c identifier query_details timestamp =
     (let cache_key = education_cache_key identifier;
          (c', edu_data) =
             lookup_with_cache E c cache_key (map_of simulated_credentials identifier)
      in (c',
          case edu_data of
            Some d \<Rightarrow>
              if d \<noteq> [] then education_success E d identifier timestamp
              else Some (education_failure identifier timestamp)
          | None \<Rightarrow> Some (education_failure identifier timestamp)))"

section \<open>Supply chain resolver (\<open>supply_chain.py\<close>)\<close>

definition simulated_supply_chains :: "(string \<times> pydict) list" where
  "simulated_supply_chains =
    [(''costa_rica_coffee'',
       [(''name'', JStr ''Organic Fair Trade Coffee''),
        (''manufacturer'', JStr ''Ethical Beans Co.''),
        (''chain'', JList
          [JDict
             [(''stage'', JStr ''Harvesting''),
              (''location'', JStr ''Costa Rica''),
              (''timestamp'', JStr ''2023-09-15T08:30:00Z''),
              (''verificationMethod'', JStr ''IoT Sensors + Blockchain''),
              (''verifier'', JStr ''AgriVerify DAO'')],
           JDict
             [(''stage'', JStr ''Processing''),
              (''location'', JStr ''San Jose, Costa Rica''),
              (''timestamp'', JStr ''2023-09-20T14:20:00Z''),
              (''verificationMethod'', JStr ''QR Code Scanning + Agent Verification''),
              (''verifier'', JStr ''SupplyTrust Network'')],
           JDict
             [(''stage'', JStr ''Shipping''),
              (''location'', JStr ''Atlantic Ocean''),
              (''timestamp'', JStr ''2023-10-05T10:15:00Z''),
              (''verificationMethod'', JStr ''GPS Tracking + Temperature Sensors''),
              (''verifier'', JStr ''ShipChain Collective'')],
           JDict
             [(''stage'', JStr ''Distribution Center''),
              (''location'', JStr ''Miami, FL, USA''),
              (''timestamp'', JStr ''2023-10-15T16:40:00Z''),
              (''verificationMethod'', JStr ''RFID + Blockchain Verification''),
              (''verifier'', JStr ''DistributionTrust Inc.'')]]),
        (''certifications'', JList [JStr ''Fair Trade'', JStr ''Organic'', JStr ''Rainforest Alliance'']),
        (''carbonFootprint'', JStr ''2.3kg CO2e (verified)''),
        (''blockchainRecords'', JStr ''fetch://supplychain/costa_rica_coffee'')]),
      (''ecophone_x1'',
       [(''name'', JStr ''EcoPhone X1''),
        (''manufacturer'', JStr ''GreenTech Electronics''),
        (''chain'', JList
          [JDict
             [(''stage'', JStr ''Component Sourcing''),
              (''location'', JStr ''Multiple (see detailed report)''),
              (''timestamp'', JStr ''2023-08-10T09:00:00Z''),
              (''verificationMethod'', JStr ''Supplier Attestations + Audits''),
              (''verifier'', JStr ''ComponentVerify Network'')],
           JDict
             [(''stage'', JStr ''Assembly''),
              (''location'', JStr ''Vietnam''),
              (''timestamp'', JStr ''2023-08-25T13:45:00Z''),
              (''verificationMethod'', JStr ''Manufacturing Process Verification''),
              (''verifier'', JStr ''ProductIntegrity DAO'')],
           JDict
             [(''stage'', JStr ''Quality Control''),
              (''location'', JStr ''Vietnam''),
              (''timestamp'', JStr ''2023-08-27T10:30:00Z''),
              (''verificationMethod'', JStr ''Automated Testing + Human Verification''),
              (''verifier'', JStr ''QualityChain Network'')],
           JDict
             [(''stage'', JStr ''Distribution''),
              (''location'', JStr ''Global Distribution Network''),
              (''timestamp'', JStr ''2023-09-10T08:20:00Z''),
              (''verificationMethod'', JStr ''Logistics Tracking + Blockchain''),
              (''verifier'', JStr ''LogisticsVerify Alliance'')]]),
        (''certifications'', JList
          [JStr ''Fair Labor'',
           JStr ''Sustainable Electronics'',
           JStr ''Conflict-Free Minerals'']),
        (''carbonFootprint'', JStr ''18.5kg CO2e (verified)''),
        (''blockchainRecords'', JStr ''fetch://supplychain/ecophone_x1'')])]"

definition supply_chain_cache_key :: "string \<Rightarrow> string" where
  "supply_chain_cache_key identifier = ''supply_chain_'' @ identifier"

text \<open>Lines 114-140 and 142-150: the two dictionaries the resolver returns.\<close>

definition supply_chain_success :: "env \<Rightarrow> pydict \<Rightarrow> string \<Rightarrow> string \<Rightarrow> pydict option" where
  "supply_chain_success E supply_data identifier timestamp =
     do {
       name \<leftarrow> map_of supply_data ''name'';
       manufacturer \<leftarrow> map_of supply_data ''manufacturer'';
       chain \<leftarrow> map_of supply_data ''chain'';
       certifications \<leftarrow> map_of supply_data ''certifications'';
       footprint \<leftarrow> map_of supply_data ''carbonFootprint'';
       records \<leftarrow> map_of supply_data ''blockchainRecords'';
       Some [(''request_data_type'', JStr ''supply_chain_status''),
             (''request_identifier'', JStr identifier),
             (''source_description'', JStr ''Distributed Supply Chain Verification Network''),
             (''data_payload'',
                JDict [(''product'', JDict [(''name'', name), (''manufacturer'', manufacturer)]),
                       (''supplyChain'', chain),
                       (''certifications'', certifications),
                       (''sustainability'', JDict [(''carbonFootprint'', footprint)]),
                       (''verificationProof'',
                          JDict [(''method'', JStr ''Decentralized Ledger + Agent Consensus''),
                                 (''hash'', JStr (sha256_json E supply_data)),
                                 (''blockchainReference'', records)])]),
             (''verification_summary'',
                JStr (''Supply chain data verified through multiple attestation methods ''
                      @ ''including IoT sensors, RFID tracking, and blockchain verification ''
                      @ ''by independent verifier networks.'')),
             (''timestamp'', JStr timestamp)]
     }"

definition supply_chain_failure :: "string \<Rightarrow> string \<Rightarrow> pydict" where
  "supply_chain_failure identifier timestamp =
     [(''request_data_type'', JStr ''supply_chain_status''),
      (''request_identifier'', JStr identifier),
      (''source_description'', JStr ''Supply Chain Verification Network''),
      (''data_payload'', JDict []),
      (''verification_summary'',
         JStr ''No supply chain data found for this product identifier.''),
      (''timestamp'', JStr timestamp),
      (''error_message'',
         JStr (''No supply chain information found for product identifier ''
               @ quoted identifier @ ''.''))]"

definition fetch_supply_chain_status ::
  "env \<Rightarrow> cache \<Rightarrow> string \<Rightarrow> string option \<Rightarrow> string \<Rightarrow> cache \<times> pydict option" where
  "fetch_supply_chain_status E c identifier query_details timestamp =
     (let cache_key = supply_chain_cache_key identifier;
          (c', supply_data) =
             lookup_with_cache E c cache_key (map_of simulated_supply_chains identifier)
      in (c',
          case supply_data of
            Some d \<Rightarrow>
              if d \<noteq> [] then supply_chain_success E d identifier timestamp
              else Some (supply_chain_failure identifier timestamp)
          | None \<Rightarrow> Some (supply_chain_failure identifier timestamp)))"

section \<open>The router and the price resolver (\<open>data_source_handler.py\<close>)\<close>

definition COINGECKO_API_URL :: string where
  "COINGECKO_API_URL = ''https://api.coingecko.com/api/v3''"

text \<open>Lines 67-69: the comparison currency.\<close>

definition crypto_vs_currency :: "string option \<Rightarrow> string" where
  "crypto_vs_currency query_details =
     (case query_details of
        None \<Rightarrow> ''usd''
      | Some qd \<Rightarrow>
          if qd \<noteq> [] \<and> sublist ''vs_currency='' qd
          then last (split_py ''vs_currency='' [] qd)
          else ''usd'')"

text \<open>
  \<open>k in v\<close> and \<open>v[k]\<close> for a string \<open>k\<close> and a decoded JSON body \<open>v\<close>. \<open>Inl\<close> carries the
  text of the exception Python raises (a \<open>TypeError\<close> or a \<open>KeyError\<close>).
\<close>

fun type_name :: "jval \<Rightarrow> string" where
  "type_name JNone = ''NoneType''"
| "type_name (JBool b) = ''bool''"
| "type_name (JInt n) = ''int''"
| "type_name (JFloat m e) = ''float''"
| "type_name (JStr s) = ''str''"
| "type_name (JList vs) = ''list''"
| "type_name (JDict d) = ''dict''"

fun py_in :: "string \<Rightarrow> jval \<Rightarrow> string + bool" where
  "py_in k (JDict d) = Inr (map_of d k \<noteq> None)"
| "py_in k (JList vs) = Inr (JStr k \<in> set vs)"
| "py_in k (JStr s) = Inr (sublist k s)"
| "py_in k v = Inl (''argument of type '' @ quoted (type_name v) @ '' is not iterable'')"

fun py_index :: "jval \<Rightarrow> string \<Rightarrow> string + jval" where
  "py_index (JDict d) k = (case map_of d k of Some v \<Rightarrow> Inr v | None \<Rightarrow> Inl (quoted k))"
| "py_index (JList vs) k = Inl ''list indices must be integers or slices, not str''"
| "py_index (JStr s) k = Inl (''string indices must be integers, not '' @ quoted ''str'')"
| "py_index v k = Inl (quoted (type_name v) @ '' object is not subscriptable'')"

text \<open>
  Lines 79-80: \<open>identifier in api_data and vs_currency in api_data[identifier]\<close>, then
  \<open>api_data[identifier][vs_currency]\<close>. \<open>Inr None\<close> is the \<open>else\<close> branch.
\<close>

definition crypto_price_of :: "jval \<Rightarrow> string \<Rightarrow> string \<Rightarrow> string + jval option" where
  "crypto_price_of api_data identifier vs_currency =
     (case py_in identifier api_data of
        Inl exn \<Rightarrow> Inl exn
      | Inr False \<Rightarrow> Inr None
      | Inr True \<Rightarrow>
          (case py_index api_data identifier of
             Inl exn \<Rightarrow> Inl exn
           | Inr inner \<Rightarrow>
               (case py_in vs_currency inner of
                  Inl exn \<Rightarrow> Inl exn
                | Inr False \<Rightarrow> Inr None
                | Inr True \<Rightarrow>
                    (case py_index inner vs_currency of
                       Inl exn \<Rightarrow> Inl exn
                     | Inr price \<Rightarrow> Inr (Some price)))))"

definition crypto_failure :: "string \<Rightarrow> string \<Rightarrow> string \<Rightarrow> string \<Rightarrow> string \<Rightarrow> pydict" where
  "crypto_failure identifier source summary timestamp message =
     [(''request_data_type'', JStr ''crypto_price''),
      (''request_identifier'', JStr identifier),
      (''source_description'', JStr source),
      (''data_payload'', JDict []),
      (''verification_summary'', JStr summary),
      (''timestamp'', JStr timestamp),
      (''error_message'', JStr message)]"

text \<open>
  \<open>fetch_crypto_price(identifier, query_details, timestamp)\<close>. Every exception raised
  inside the \<open>try\<close> block is caught by one of the three handlers.
\<close>

definition fetch_crypto_price :: "env \<Rightarrow> string \<Rightarrow> string option \<Rightarrow> string \<Rightarrow> pydict" where
  "fetch_crypto_price E identifier query_details timestamp =
     (let vs_currency = crypto_vs_currency query_details;
          url = COINGECKO_API_URL @ ''/simple/price?ids='' @ identifier
                @ ''&vs_currencies='' @ vs_currency
      in case http_get E url of
           HTTPStatusError status_code body \<Rightarrow>
             crypto_failure identifier ''CoinGecko API''
               ''Error communicating with data source.'' timestamp
               (''HTTP error fetching data from CoinGecko: '' @ status_code @ '' - '' @ body)
         | RequestError e \<Rightarrow>
             crypto_failure identifier ''CoinGecko API''
               ''Error communicating with data source.'' timestamp
               (''Request error fetching data from CoinGecko: '' @ e)
         | OtherException e \<Rightarrow>
             crypto_failure identifier ''CoinGecko API''
               ''An unexpected error occurred.'' timestamp
               (''An unexpected error occurred while fetching data: '' @ e)
         | JsonBody api_data \<Rightarrow>
             (case crypto_price_of api_data identifier vs_currency of
                Inl e \<Rightarrow>
                  crypto_failure identifier ''CoinGecko API''
                    ''An unexpected error occurred.'' timestamp
                    (''An unexpected error occurred while fetching data: '' @ e)
              | Inr None \<Rightarrow>
                  crypto_failure identifier ''CoinGecko API''
                    ''Data source did not return expected format or identifier not found.''
                    timestamp
                    (''Data not found for identifier '' @ quoted identifier
                     @ '' with currency '' @ quoted vs_currency
                     @ '' from CoinGecko. Response: '' @ py_str E api_data)
              | Inr (Some price) \<Rightarrow>
                  [(''request_data_type'', JStr ''crypto_price''),
                   (''request_identifier'', JStr identifier),
                   (''source_description'',
                      JStr ''CoinGecko API (https://www.coingecko.com/en/api)''),
                   (''data_payload'',
                      JDict [(''price'', price), (''currency'', JStr vs_currency),
                             (''asset_id'', JStr identifier)]),
                   (''verification_summary'',
                      JStr (''Data fetched live from CoinGecko API. ''
                            @ ''Accuracy subject to API provider.'')),
                   (''timestamp'', JStr timestamp)]))"

text \<open>The four caches of the resolver modules, as one state.\<close>

record caches =
  carbon_footprint_cache :: cache
  reputation_cache :: cache
  education_cache :: cache
  supply_chain_cache :: cache

definition empty_caches :: caches where
  "empty_caches =
     \<lparr>carbon_footprint_cache = Map.empty, reputation_cache = Map.empty,
      education_cache = Map.empty, supply_chain_cache = Map.empty\<rparr>"

text \<open>The five data types the router dispatches on (lines 42-50).\<close>

definition supported_types :: "string list" where
  "supported_types =
     [''crypto_price'', ''education_credential'', ''supply_chain_status'',
      ''carbon_footprint'', ''reputation_score'']"

text \<open>Lines 53-61: the dictionary returned for a data type that is not supported.\<close>

definition unsupported_message :: "string \<Rightarrow> string" where
  "unsupported_message data_type =
     ''Unsupported data_type: '' @ quoted data_type @ ''. Supported types: ''
     @ quoted ''crypto_price'' @ '', '' @ quoted ''education_credential'' @ '', ''
     @ quoted ''supply_chain_status'' @ '', '' @ quoted ''carbon_footprint'' @ '', ''
     @ quoted ''reputation_score'' @ ''.''"

definition unsupported :: "string \<Rightarrow> string \<Rightarrow> string \<Rightarrow> pydict" where
  "unsupported data_type identifier timestamp =
     [(''request_data_type'', JStr data_type),
      (''request_identifier'', JStr identifier),
      (''source_description'', JStr ''Data Handler System''),
      (''data_payload'', JDict []),
      (''verification_summary'', JStr ''Data type not supported by this handler.''),
      (''timestamp'', JStr timestamp),
      (''error_message'', JStr (unsupported_message data_type))]"

text \<open>
  \<open>fetch_verifiable_data(data_type, identifier, query_details)\<close>: the caches after the
  call and the returned dictionary (\<open>None\<close> when the call raises).
\<close>

definition fetch_verifiable_data ::
  "env \<Rightarrow> caches \<Rightarrow> string \<Rightarrow> string \<Rightarrow> string option \<Rightarrow> caches \<times> pydict option" where
  "fetch_verifiable_data E st data_type identifier query_details =
     (let timestamp = utc_iso E @ ''Z''
      in if lower data_type = ''crypto_price''
           then (st, Some (fetch_crypto_price E identifier query_details timestamp))
         else if lower data_type = ''education_credential''
           then (let (c, r) = fetch_education_credential E (education_cache st)
                                identifier query_details timestamp
                 in (st\<lparr>education_cache := c\<rparr>, r))
         else if lower data_type = ''supply_chain_status''
           then (let (c, r) = fetch_supply_chain_status E (supply_chain_cache st)
                                identifier query_details timestamp
                 in (st\<lparr>supply_chain_cache := c\<rparr>, r))
         else if lower data_type = ''carbon_footprint''
           then (let (c, r) = fetch_carbon_footprint E (carbon_footprint_cache st)
                                identifier query_details timestamp
                 in (st\<lparr>carbon_footprint_cache := c\<rparr>, r))
         else if lower data_type = ''reputation_score''
           then (let (c, r) = fetch_reputation_score E (reputation_cache st)
                                identifier query_details timestamp
                 in (st\<lparr>reputation_cache := c\<rparr>, r))
         else (st, Some (unsupported data_type identifier timestamp)))"

section \<open>Chat front end (\<open>chat_protocol_integration.py\<close>)\<close>

text \<open>\<open>normalize_identifier(identifier, data_type)\<close>.\<close>

definition normalize_identifier :: "string \<Rightarrow> string \<Rightarrow> string" where
  "normalize_identifier identifier data_type =
     (if identifier = [] then identifier
      else if data_type = ''education_credential''
        then replace_char (CHR '' '') (CHR ''_'') (lower identifier)
      else if data_type = ''reputation_score''
        then normalize_reputation_identifier identifier
      else identifier)"

text \<open>\<open>models.VerifiableDataResponse\<close> and \<open>models.ErrorMessage\<close>.\<close>

record VerifiableDataResponse =
  session_id :: string
  request_data_type :: string
  request_identifier :: string
  source_description :: "string option"
  timestamp :: "string option"
  data_payload :: "pydict option"
  verification_summary :: "string option"
  error_message :: "string option"

record ErrorMessage =
  em_session_id :: string
  error :: string

text \<open>
  \<open>format_response_for_chat(response_data)\<close>. Lines 193-198 are the error report. The
  rest of the function (lines 200-436), which renders a response without an error
  message, is the parameter \<open>render\<close>; it returns \<open>None\<close> when rendering raises.
\<close>

definition error_report :: "string \<Rightarrow> string" where
  "error_report message =
     ''# Error Report\<newline>'' @ ''**Message:** '' @ message @ ''\<newline>\<newline>''
     @ ''_Please try again or rephrase your request._''"

definition format_response_for_chat ::
  "(VerifiableDataResponse \<Rightarrow> string option) \<Rightarrow> VerifiableDataResponse \<Rightarrow> string option" where
  "format_response_for_chat render response_data =
     (case error_message response_data of
        Some message \<Rightarrow>
          if message \<noteq> [] then Some (error_report message) else render response_data
      | None \<Rightarrow> render response_data)"

section \<open>Routing a completed response (\<open>main_agent.py\<close>)\<close>

text \<open>
  The agent's context, as far as \<open>handle_internal_response\<close> uses it: the key-value
  storage that binds a session id to the address of the sender of its chat message
  (written by \<open>handle_chat_message\<close>, line 151), the messages handed to \<open>ctx.send\<close>, and
  the log. A chat message is the list of its content items (its time stamp and message
  id are fresh values and are left out).
\<close>

datatype content = TextContent string | EndSessionContent

datatype log_level = LogInfo | LogWarning | LogError

record agent_context =
  storage :: "string \<rightharpoonup> string"
  outbox :: "(string \<times> content list) list"
  logger :: "(log_level \<times> string) list"

text \<open>\<open>handle_chat_message\<close>, line 151: \<open>ctx.storage.set(str(ctx.session), sender)\<close>.\<close>

definition bind_session :: "agent_context \<Rightarrow> string \<Rightarrow> string \<Rightarrow> agent_context" where
  "bind_session ctx session sender = ctx\<lparr>storage := (storage ctx)(session \<mapsto> sender)\<rparr>"

text \<open>\<open>create_chat_message(text, end_session)\<close>.\<close>

definition create_chat_message :: "string \<Rightarrow> bool \<Rightarrow> content list" where
  "create_chat_message txt end_session =
     [TextContent txt] @ (if end_session then [EndSessionContent] else [])"

text \<open>
  The message \<open>handle_internal_response\<close> receives: it is registered for
  \<open>VerifiableDataResponse\<close> and \<open>ErrorMessage\<close>; the last branch of the source covers any
  other object with a \<open>session_id\<close>, kept here as its session id and the text of
  \<open>type(response)\<close>.
\<close>

datatype internal_response =
    DataResponse VerifiableDataResponse
  | ErrorResponse ErrorMessage
  | OtherResponse string string

fun response_session_id :: "internal_response \<Rightarrow> string" where
  "response_session_id (DataResponse r) = session_id r"
| "response_session_id (ErrorResponse e) = em_session_id e"
| "response_session_id (OtherResponse s ty) = s"

text \<open>Line 151: the error line the last branch logs before it formats its message.\<close>

fun unknown_type_log :: "internal_response \<Rightarrow> (log_level \<times> string) list" where
  "unknown_type_log (OtherResponse s ty) =
     [(LogError, ''Received unknown response type for session '' @ s @ '': '' @ ty
                 @ ''. Sending generic error to user.'')]"
| "unknown_type_log (DataResponse r) = []"
| "unknown_type_log (ErrorResponse e) = []"

text \<open>Lines 138-158: the text to send.\<close>

fun formatted_text_response ::
  "(VerifiableDataResponse \<Rightarrow> string option) \<Rightarrow> internal_response \<Rightarrow> string option" where
  "formatted_text_response render (DataResponse r) = format_response_for_chat render r"
| "formatted_text_response render (ErrorResponse e) =
     format_response_for_chat render
       \<lparr>session_id = em_session_id e, request_data_type = ''error_report'',
        request_identifier = ''unknown_request_due_to_error'', source_description = None,
        timestamp = None, data_payload = None, verification_summary = None,
        error_message = Some (error e)\<rparr>"
| "formatted_text_response render (OtherResponse s ty) =
     format_response_for_chat render
       \<lparr>session_id = s, request_data_type = ''system_error'',
        request_identifier = ''unknown'', source_description = None,
        timestamp = None, data_payload = None, verification_summary = None,
        error_message =
          Some ''An unexpected internal error occurred while processing your request.''\<rparr>"

text \<open>
  \<open>handle_internal_response(ctx, sender, response)\<close>: the context after the call.
  \<open>describe\<close> is \<open>str(response)\<close>, which the first log line prints. The log keeps the
  error lines; the informational lines are left out. When rendering raises, the handler
  ends without sending.
\<close>

definition handle_internal_response ::
  "(VerifiableDataResponse \<Rightarrow> string option) \<Rightarrow> (internal_response \<Rightarrow> string)
     \<Rightarrow> agent_context \<Rightarrow> string \<Rightarrow> internal_response \<Rightarrow> agent_context" where
  "handle_internal_response render describe ctx sender response =
     (if response_session_id response = []
      then ctx\<lparr>logger := logger ctx @
             [(LogError, ''Critical: Response model is missing session_id. ''
                      @ ''Cannot route response: '' @ describe response)]\<rparr>
      else
        (let original_user_address = storage ctx (response_session_id response)
         in case original_user_address of
              None \<Rightarrow>
                ctx\<lparr>logger := logger ctx @
                  [(LogError, ''Could not find original user address for session_id: ''
                           @ response_session_id response
                           @ '' to send final response. This is a critical flow error.'')]\<rparr>
            | Some address \<Rightarrow>
                if address = []
                then ctx\<lparr>logger := logger ctx @
                  [(LogError, ''Could not find original user address for session_id: ''
                           @ response_session_id response
                           @ '' to send final response. This is a critical flow error.'')]\<rparr>
                else
                  (let ctx' = ctx\<lparr>logger := logger ctx @ unknown_type_log response\<rparr>
                   in case formatted_text_response render response of
                        None \<Rightarrow> ctx'
                      | Some formatted \<Rightarrow>
                          ctx'\<lparr>outbox := outbox ctx' @
                            [(address, create_chat_message formatted True)]\<rparr>)))"

section \<open>The normalisers over \<open>str.lower\<close>\<close>





section \<open>The specification's scope priority\<close>

text \<open>
  The priority as the specification words it, over the membership test \<open>present\<close>: the
  requested scope if the identifier exists in its record set; otherwise the first scope
  in the order product, company, activity whose record set contains the identifier;
  otherwise product.
\<close>

definition spec_first_containing :: "(scope \<Rightarrow> bool) \<Rightarrow> scope" where
  "spec_first_containing present =
     (if present Product then Product
      else if present Company then Company
      else if present Activity then Activity
      else Product)"

definition spec_scope_priority :: "(scope \<Rightarrow> bool) \<Rightarrow> scope option \<Rightarrow> scope" where
  "spec_scope_priority present requested =
     (case requested of
        Some r \<Rightarrow> if present r then r else spec_first_containing present
      | None \<Rightarrow> spec_first_containing present)"

section \<open>A concrete environment\<close>

text \<open>
  An environment for running the model on examples: the library functions return fixed
  strings, the clock stands at zero and the price service is unreachable.
\<close>

definition example_env :: env where
  "example_env =
     \<lparr>sha256_json = (\<lambda>d. ''sha256''), b32encode = (\<lambda>s. s), py_str = (\<lambda>v. ''value''),
      utc_iso = ''2024-01-01T00:00:00'', utc_check = 0, utc_store = 0,
      http_get = (\<lambda>url. RequestError ''unreachable'')\<rparr>"

text \<open>A response that carries an error message next to a populated payload.\<close>

definition example_error_response :: VerifiableDataResponse where
  "example_error_response =
     \<lparr>session_id = ''S1'', request_data_type = ''crypto_price'',
      request_identifier = ''bitcoin'', source_description = Some ''CoinGecko API'',
      timestamp = Some ''2024-01-01T00:00:00Z'',
      data_payload = Some [(''price'', JInt 1)],
      verification_summary = Some ''Data fetched live.'',
      error_message = Some ''boom''\<rparr>"

text \<open>A context with no session bound, nothing sent and nothing logged.\<close>

definition example_context :: agent_context where
  "example_context = \<lparr>storage = Map.empty, outbox = [], logger = []\<rparr>"

section \<open>Cache coherence and reachable states\<close>

text \<open>
  A cache is coherent with a data set when every entry stored under the key of a lookup
  \<open>x\<close> holds the record the data set gives for \<open>x\<close>. \<open>D\<close> restricts the lookups to those
  the resolver performs, \<open>key_of\<close> is its cache key and \<open>store\<close> its data set.
\<close>

definition coherent ::
  "('x \<Rightarrow> bool) \<Rightarrow> ('x \<Rightarrow> string) \<Rightarrow> ('x \<Rightarrow> pydict option) \<Rightarrow> cache \<Rightarrow> bool" where
  "coherent D key_of store c =
     (\<forall>x e. D x \<longrightarrow> c (key_of x) = Some e \<longrightarrow> store x = Some (data e))"

definition inj_keys :: "('x \<Rightarrow> bool) \<Rightarrow> ('x \<Rightarrow> string) \<Rightarrow> bool" where
  "inj_keys D key_of = (\<forall>x y. D x \<longrightarrow> D y \<longrightarrow> key_of x = key_of y \<longrightarrow> x = y)"

text \<open>The lookups, keys and data sets of the four resolvers.\<close>

definition carbon_key_of :: "scope \<times> string \<Rightarrow> string" where
  "carbon_key_of x = carbon_cache_key (fst x) (snd x)"

definition carbon_store :: "scope \<times> string \<Rightarrow> pydict option" where
  "carbon_store x = map_of (simulated_carbon_data (fst x)) (snd x)"

definition reputation_known :: "string \<times> string \<Rightarrow> bool" where
  "reputation_known x = (map_of simulated_reputation_data (fst x) \<noteq> None)"

definition reputation_key_of :: "string \<times> string \<Rightarrow> string" where
  "reputation_key_of x = reputation_cache_key (fst x) (snd x)"

definition reputation_store :: "string \<times> string \<Rightarrow> pydict option" where
  "reputation_store x =
     (case map_of simulated_reputation_data (fst x) of
        Some aspects \<Rightarrow> map_of aspects (snd x)
      | None \<Rightarrow> None)"

definition caches_ok :: "caches \<Rightarrow> bool" where
  "caches_ok st =
     (coherent (\<lambda>x. True) carbon_key_of carbon_store (carbon_footprint_cache st)
      \<and> coherent reputation_known reputation_key_of reputation_store (reputation_cache st)
      \<and> coherent (\<lambda>x. True) education_cache_key (map_of simulated_credentials)
           (education_cache st)
      \<and> coherent (\<lambda>x. True) supply_chain_cache_key (map_of simulated_supply_chains)
           (supply_chain_cache st))"

text \<open>
  The states of the caches a process can be in: the modules start with empty
  dictionaries, and only the resolvers, called through the router, write to them.
\<close>

inductive reachable :: "caches \<Rightarrow> bool" where
  start: "reachable empty_caches"
| call: "reachable st \<Longrightarrow>
         reachable (fst (fetch_verifiable_data E st data_type identifier query_details))"

text \<open>
  The fields of a reputation record that building the response reads without a default:
  the four keys are there and the attesters can be joined.
\<close>

definition reputation_record_ok :: "pydict \<Rightarrow> bool" where
  "reputation_record_ok d =
     (d \<noteq> [] \<and> map_of d ''name'' \<noteq> None \<and> map_of d ''did'' \<noteq> None
      \<and> map_of d ''verificationMethod'' \<noteq> None
      \<and> (case map_of d ''attesters'' of
            Some a \<Rightarrow> join_value '', '' a \<noteq> None
          | None \<Rightarrow> False))"

text \<open>
  The shape of a returned dictionary: \<open>data_payload\<close> is a dictionary,
  \<open>verification_summary\<close> a non-empty string, \<open>timestamp\<close> the router's time stamp, and
  an \<open>error_message\<close>, when the key is there, a non-empty string next to an empty payload.
\<close>

definition well_shaped :: "string \<Rightarrow> pydict \<Rightarrow> bool" where
  "well_shaped ts envelope =
     (case map_of envelope ''data_payload'' of
        Some (JDict payload) \<Rightarrow>
          (case map_of envelope ''verification_summary'' of
             Some (JStr summary) \<Rightarrow>
               summary \<noteq> [] \<and> map_of envelope ''timestamp'' = Some (JStr ts)
               \<and> (case map_of envelope ''error_message'' of
                     None \<Rightarrow> True
                   | Some (JStr message) \<Rightarrow> payload = [] \<and> message \<noteq> []
                   | Some other \<Rightarrow> False)
           | other \<Rightarrow> False)
      | other \<Rightarrow> False)"

section \<open>Properties of the string operations\<close>

lemma of_char_lower_char:
  "(of_char (lower_char c) :: nat) =
     (if 65 \<le> (of_char c :: nat) \<and> (of_char c :: nat) \<le> 90
      then of_char c + 32 else of_char c)"
  by (simp add: lower_char_def Let_def)

lemma lower_char_not_upper:
  "\<not> (65 \<le> (of_char (lower_char c) :: nat) \<and> (of_char (lower_char c) :: nat) \<le> 90)"
  by (simp add: of_char_lower_char)




text \<open>No upper-case ASCII letter occurs in a lowered string.\<close>

lemma upper_not_in_lower:
  assumes "65 \<le> (of_char u :: nat)" "(of_char u :: nat) \<le> 90"
  shows "u \<notin> set (lower s)"
proof
  assume "u \<in> set (lower s)"
  then obtain c where "u = lower_char c" by (auto simp: lower_def)
  with assms lower_char_not_upper [of c] show False by simp
qed

lemma no_upper_sublist_lower:
  assumes "u \<in> set xs" "65 \<le> (of_char u :: nat)" "(of_char u :: nat) \<le> 90"
  shows "\<not> sublist xs (lower s)"
proof
  assume "sublist xs (lower s)"
  then have "set xs \<subseteq> set (lower s)" by (rule set_mono_sublist)
  with assms(1) have "u \<in> set (lower s)" by blast
  with upper_not_in_lower [OF assms(2,3)] show False by blast
qed

lemma Developer_not_in_lower: "\<not> sublist ''Developer'' (lower s)"
  by (rule no_upper_sublist_lower [of "CHR ''D''"]) simp_all

lemma Service_not_in_lower: "\<not> sublist ''Service'' (lower s)"
  by (rule no_upper_sublist_lower [of "CHR ''S''"]) simp_all

lemma DAO_not_in_lower: "\<not> sublist ''DAO'' (lower s)"
  by (rule no_upper_sublist_lower [of "CHR ''D''"]) simp_all

section \<open>Idempotence of the normalisers\<close>
















section \<open>The message for an unsupported data type\<close>

lemma sublist_in_middle: "s = pre @ x @ post \<Longrightarrow> sublist x s"
  by simp

lemma unsupported_message_names:
  "sublist ''crypto_price'' (unsupported_message dt)"
  "sublist ''education_credential'' (unsupported_message dt)"
  "sublist ''supply_chain_status'' (unsupported_message dt)"
  "sublist ''carbon_footprint'' (unsupported_message dt)"
  "sublist ''reputation_score'' (unsupported_message dt)"
proof -
  show "sublist ''crypto_price'' (unsupported_message dt)"
    by (rule sublist_in_middle
        [where pre = "''Unsupported data_type: '' @ quoted dt @ ''. Supported types: ''
               @ [CHR 0x27]"
          and post = "[CHR 0x27] @ '', '' @ quoted ''education_credential'' @ '', ''
               @ quoted ''supply_chain_status'' @ '', '' @ quoted ''carbon_footprint'' @ '', ''
               @ quoted ''reputation_score'' @ ''.''"])
      (simp add: unsupported_message_def quoted_def)
  show "sublist ''education_credential'' (unsupported_message dt)"
    by (rule sublist_in_middle
        [where pre = "''Unsupported data_type: '' @ quoted dt @ ''. Supported types: ''
               @ quoted ''crypto_price'' @ '', '' @ [CHR 0x27]"
          and post = "[CHR 0x27] @ '', ''
               @ quoted ''supply_chain_status'' @ '', '' @ quoted ''carbon_footprint'' @ '', ''
               @ quoted ''reputation_score'' @ ''.''"])
      (simp add: unsupported_message_def quoted_def)
  show "sublist ''supply_chain_status'' (unsupported_message dt)"
    by (rule sublist_in_middle
        [where pre = "''Unsupported data_type: '' @ quoted dt @ ''. Supported types: ''
               @ quoted ''crypto_price'' @ '', '' @ quoted ''education_credential'' @ '', ''
               @ [CHR 0x27]"
          and post = "[CHR 0x27] @ '', '' @ quoted ''carbon_footprint'' @ '', ''
               @ quoted ''reputation_score'' @ ''.''"])
      (simp add: unsupported_message_def quoted_def)
  show "sublist ''carbon_footprint'' (unsupported_message dt)"
    by (rule sublist_in_middle
        [where pre = "''Unsupported data_type: '' @ quoted dt @ ''. Supported types: ''
               @ quoted ''crypto_price'' @ '', '' @ quoted ''education_credential'' @ '', ''
               @ quoted ''supply_chain_status'' @ '', '' @ [CHR 0x27]"
          and post = "[CHR 0x27] @ '', '' @ quoted ''reputation_score'' @ ''.''"])
      (simp add: unsupported_message_def quoted_def)
  show "sublist ''reputation_score'' (unsupported_message dt)"
    by (rule sublist_in_middle
        [where pre = "''Unsupported data_type: '' @ quoted dt @ ''. Supported types: ''
               @ quoted ''crypto_price'' @ '', '' @ quoted ''education_credential'' @ '', ''
               @ quoted ''supply_chain_status'' @ '', '' @ quoted ''carbon_footprint'' @ '', ''
               @ [CHR 0x27]"
          and post = "[CHR 0x27] @ ''.''"])
      (simp add: unsupported_message_def quoted_def)
qed

lemma unsupported_message_nonempty: "unsupported_message dt \<noteq> []"
  by (simp add: unsupported_message_def)

lemma fetch_unsupported:
  assumes "lower data_type \<notin> set supported_types"
  shows "fetch_verifiable_data E st data_type identifier query_details =
           (st, Some (unsupported data_type identifier (utc_iso E @ ''Z'')))"
  using assms by (simp add: fetch_verifiable_data_def supported_types_def Let_def)

section \<open>Coherent caches are transparent\<close>

lemma cache_fresh_Some:
  "cache_fresh E c key \<Longrightarrow> \<exists>e. c key = Some e"
  by (auto simp: cache_fresh_def split: option.splits)

lemma lookup_with_cache_result:
  assumes "coherent D key_of store c" and "D x"
  shows "snd (lookup_with_cache E c (key_of x) (store x)) = store x"
proof (cases "cache_fresh E c (key_of x)")
  case True
  then obtain e where e: "c (key_of x) = Some e" by (auto dest: cache_fresh_Some)
  with assms have "store x = Some (data e)" by (simp add: coherent_def)
  with True e show ?thesis by (simp add: lookup_with_cache_def)
next
  case False
  then show ?thesis by (simp add: lookup_with_cache_def split: option.splits)
qed

lemma coherent_update:
  assumes "coherent D key_of store c" and "inj_keys D key_of" and "D x"
    and "store x = Some d"
  shows "coherent D key_of store (c(key_of x \<mapsto> \<lparr>data = d, cached_at = t\<rparr>))"
  unfolding coherent_def
proof (intro allI impI)
  fix y e
  assume y: "D y" and e: "(c(key_of x \<mapsto> \<lparr>data = d, cached_at = t\<rparr>)) (key_of y) = Some e"
  show "store y = Some (data e)"
  proof (cases "key_of y = key_of x")
    case True
    with assms(2,3) y have "y = x" by (simp add: inj_keys_def)
    with True e assms(4) show ?thesis by auto
  next
    case False
    with e have "c (key_of y) = Some e" by simp
    with assms(1) y show ?thesis by (simp add: coherent_def)
  qed
qed

lemma lookup_with_cache_coherent:
  assumes "coherent D key_of store c" and "inj_keys D key_of" and "D x"
  shows "coherent D key_of store (fst (lookup_with_cache E c (key_of x) (store x)))"
proof (cases "cache_fresh E c (key_of x)")
  case True
  with assms(1) show ?thesis by (simp add: lookup_with_cache_def)
next
  case False
  show ?thesis
  proof (cases "store x")
    case None
    with False assms(1) show ?thesis by (simp add: lookup_with_cache_def)
  next
    case (Some d)
    with False coherent_update [OF assms Some] show ?thesis
      by (simp add: lookup_with_cache_def)
  qed
qed

lemma reputation_lookup_with_cache_result:
  assumes "coherent D key_of store c" and "D x"
  shows "snd (reputation_lookup_with_cache E c (key_of x) (store x)) = store x"
proof (cases "cache_fresh E c (key_of x)")
  case True
  then obtain e where e: "c (key_of x) = Some e" by (auto dest: cache_fresh_Some)
  with assms have "store x = Some (data e)" by (simp add: coherent_def)
  with True e show ?thesis by (simp add: reputation_lookup_with_cache_def)
next
  case False
  then show ?thesis by (simp add: reputation_lookup_with_cache_def split: option.splits)
qed

lemma reputation_lookup_with_cache_coherent:
  assumes "coherent D key_of store c" and "inj_keys D key_of" and "D x"
  shows "coherent D key_of store (fst (reputation_lookup_with_cache E c (key_of x) (store x)))"
proof (cases "cache_fresh E c (key_of x)")
  case True
  with assms(1) show ?thesis by (simp add: reputation_lookup_with_cache_def)
next
  case False
  show ?thesis
  proof (cases "store x")
    case None
    with False assms(1) show ?thesis by (simp add: reputation_lookup_with_cache_def)
  next
    case (Some d)
    with False assms(1) coherent_update [OF assms Some] show ?thesis
      by (simp add: reputation_lookup_with_cache_def)
  qed
qed

lemma coherent_empty: "coherent D key_of store Map.empty"
  by (simp add: coherent_def)

lemma scope_name_inj:
  "scope_name s @ CHR ''_'' # a = scope_name s' @ CHR ''_'' # b \<Longrightarrow> s = s' \<and> a = b"
  by (cases s; cases s') simp_all

lemma carbon_inj_keys: "inj_keys (\<lambda>x. True) carbon_key_of"
  by (auto simp: inj_keys_def carbon_key_of_def carbon_cache_key_def prod_eq_iff
      dest: scope_name_inj)

lemma education_inj_keys: "inj_keys (\<lambda>x. True) education_cache_key"
  by (simp add: inj_keys_def education_cache_key_def)

lemma supply_chain_inj_keys: "inj_keys (\<lambda>x. True) supply_chain_cache_key"
  by (simp add: inj_keys_def supply_chain_cache_key_def)

lemma reputation_entities:
  "map_of simulated_reputation_data nid \<noteq> None \<Longrightarrow>
     nid = ''alex_developer'' \<or> nid = ''decentra_dao'' \<or> nid = ''trustdata_service''"
  by (simp add: simulated_reputation_data_def split: if_splits)

lemma reputation_inj_keys: "inj_keys reputation_known reputation_key_of"
  unfolding inj_keys_def
proof (intro allI impI)
  fix x y :: "string \<times> string"
  assume kx: "reputation_known x" and ky: "reputation_known y"
    and k: "reputation_key_of x = reputation_key_of y"
  from kx have "map_of simulated_reputation_data (fst x) \<noteq> None"
    by (simp add: reputation_known_def)
  then have x: "fst x = ''alex_developer'' \<or> fst x = ''decentra_dao''
                \<or> fst x = ''trustdata_service''"
    by (rule reputation_entities)
  from ky have "map_of simulated_reputation_data (fst y) \<noteq> None"
    by (simp add: reputation_known_def)
  then have y: "fst y = ''alex_developer'' \<or> fst y = ''decentra_dao''
                \<or> fst y = ''trustdata_service''"
    by (rule reputation_entities)
  from k have "fst x @ CHR ''_'' # snd x = fst y @ CHR ''_'' # snd y"
    by (simp add: reputation_key_of_def reputation_cache_key_def)
  with x y show "x = y"
    by (auto simp: prod_eq_iff)
qed

section \<open>Records of the data sets give well-shaped dictionaries\<close>

lemma carbon_record_payload:
  assumes "map_of (simulated_carbon_data s) nid = Some d"
  shows "d \<noteq> [] \<and> (\<exists>p. carbon_payload E s d ts = Some p)"
  using assms by (cases s) (auto split: if_splits)

lemma carbon_summary_nonempty: "carbon_summary E d \<noteq> []"
  by (simp add: carbon_summary_def)

lemma carbon_success_shape:
  assumes "carbon_payload E s d ts = Some p"
  shows "\<exists>envelope. carbon_success E s d identifier ts = Some envelope
           \<and> well_shaped ts envelope"
  using assms by (simp add: carbon_success_def well_shaped_def carbon_summary_nonempty)

lemma carbon_error_message_nonempty: "carbon_error_message rq dt identifier \<noteq> []"
  by (simp add: carbon_error_message_def split: option.splits)

lemma carbon_failure_shape: "well_shaped ts (carbon_failure rq dt identifier ts)"
  by (simp add: carbon_failure_def well_shaped_def carbon_error_message_nonempty)

lemma fetch_carbon_footprint_shape:
  assumes "coherent (\<lambda>x. True) carbon_key_of carbon_store c"
  shows "coherent (\<lambda>x. True) carbon_key_of carbon_store
           (fst (fetch_carbon_footprint E c identifier query_details ts))
         \<and> (\<exists>envelope. snd (fetch_carbon_footprint E c identifier query_details ts) =
                          Some envelope
                        \<and> well_shaped ts envelope)"
proof -
  define nid where "nid = normalize_carbon_identifier identifier"
  define ds where "ds = choose_scope (in_scope nid) (requested_scope query_details)
                          (detect_scope (in_scope nid))"
  define r where "r = lookup_with_cache E c (carbon_key_of (ds, nid)) (carbon_store (ds, nid))"
  have res: "snd r = carbon_store (ds, nid)"
    unfolding r_def using assms by (rule lookup_with_cache_result) simp
  have coh: "coherent (\<lambda>x. True) carbon_key_of carbon_store (fst r)"
    unfolding r_def using assms carbon_inj_keys by (rule lookup_with_cache_coherent) simp
  have f: "fetch_carbon_footprint E c identifier query_details ts =
             (fst r,
              case snd r of
                Some d \<Rightarrow>
                  if d \<noteq> [] then carbon_success E ds d identifier ts
                  else Some (carbon_failure (requested_scope query_details)
                               (detect_scope (in_scope nid)) identifier ts)
              | None \<Rightarrow> Some (carbon_failure (requested_scope query_details)
                               (detect_scope (in_scope nid)) identifier ts))"
    unfolding fetch_carbon_footprint_def Let_def split_def r_def ds_def nid_def
      carbon_key_of_def carbon_store_def fst_conv snd_conv
    by (rule refl)
  show ?thesis
  proof (cases "carbon_store (ds, nid)")
    case None
    with f res coh show ?thesis by (simp add: carbon_failure_shape)
  next
    case (Some d)
    then have "map_of (simulated_carbon_data ds) nid = Some d"
      by (simp add: carbon_store_def)
    then have "d \<noteq> []" and "\<exists>p. carbon_payload E ds d ts = Some p"
      using carbon_record_payload by blast+
    then obtain p where "carbon_payload E ds d ts = Some p" by blast
    with carbon_success_shape obtain envelope where
      "carbon_success E ds d identifier ts = Some envelope" "well_shaped ts envelope"
      by blast
    with f res coh Some \<open>d \<noteq> []\<close> show ?thesis by simp
  qed
qed

lemma map_of_list_all:
  assumes "list_all P (map snd xs)" and "map_of xs k = Some d"
  shows "P d"
proof -
  from assms(2) have "(k, d) \<in> set xs" by (rule map_of_SomeD)
  then have "d \<in> set (map snd xs)" by force
  with assms(1) show ?thesis by (auto simp: list_all_iff)
qed

lemma education_records_ok:
  "list_all (\<lambda>d. d \<noteq> [] \<and> (\<exists>envelope. education_success E d identifier ts = Some envelope
                        \<and> well_shaped ts envelope))
     (map snd simulated_credentials)"
  by (simp add: simulated_credentials_def education_success_def well_shaped_def)

lemma education_failure_shape: "well_shaped ts (education_failure identifier ts)"
  by (simp add: education_failure_def well_shaped_def)

lemma fetch_education_credential_shape:
  assumes "coherent (\<lambda>x. True) education_cache_key (map_of simulated_credentials) c"
  shows "coherent (\<lambda>x. True) education_cache_key (map_of simulated_credentials)
           (fst (fetch_education_credential E c identifier query_details ts))
         \<and> (\<exists>envelope. snd (fetch_education_credential E c identifier query_details ts) =
                          Some envelope
                        \<and> well_shaped ts envelope)"
proof -
  define r where "r = lookup_with_cache E c (education_cache_key identifier)
                        (map_of simulated_credentials identifier)"
  have res: "snd r = map_of simulated_credentials identifier"
    unfolding r_def using assms by (rule lookup_with_cache_result) simp
  have coh: "coherent (\<lambda>x. True) education_cache_key (map_of simulated_credentials) (fst r)"
    unfolding r_def using assms education_inj_keys by (rule lookup_with_cache_coherent) simp
  have f: "fetch_education_credential E c identifier query_details ts =
             (fst r,
              case snd r of
                Some d \<Rightarrow>
                  if d \<noteq> [] then education_success E d identifier ts
                  else Some (education_failure identifier ts)
              | None \<Rightarrow> Some (education_failure identifier ts))"
    unfolding fetch_education_credential_def Let_def split_def r_def fst_conv snd_conv
    by (rule refl)
  show ?thesis
  proof (cases "map_of simulated_credentials identifier")
    case None
    with f res coh show ?thesis by (simp add: education_failure_shape)
  next
    case (Some d)
    from map_of_list_all [OF education_records_ok Some] obtain envelope where
      "d \<noteq> []" "education_success E d identifier ts = Some envelope"
      "well_shaped ts envelope"
      by blast
    with f res coh Some show ?thesis by simp
  qed
qed

lemma supply_chain_records_ok:
  "list_all (\<lambda>d. d \<noteq> [] \<and> (\<exists>envelope. supply_chain_success E d identifier ts = Some envelope
                        \<and> well_shaped ts envelope))
     (map snd simulated_supply_chains)"
  by (simp add: simulated_supply_chains_def supply_chain_success_def well_shaped_def)

lemma supply_chain_failure_shape: "well_shaped ts (supply_chain_failure identifier ts)"
  by (simp add: supply_chain_failure_def well_shaped_def)

lemma fetch_supply_chain_status_shape:
  assumes "coherent (\<lambda>x. True) supply_chain_cache_key (map_of simulated_supply_chains) c"
  shows "coherent (\<lambda>x. True) supply_chain_cache_key (map_of simulated_supply_chains)
           (fst (fetch_supply_chain_status E c identifier query_details ts))
         \<and> (\<exists>envelope. snd (fetch_supply_chain_status E c identifier query_details ts) =
                          Some envelope
                        \<and> well_shaped ts envelope)"
proof -
  define r where "r = lookup_with_cache E c (supply_chain_cache_key identifier)
                        (map_of simulated_supply_chains identifier)"
  have res: "snd r = map_of simulated_supply_chains identifier"
    unfolding r_def using assms by (rule lookup_with_cache_result) simp
  have coh: "coherent (\<lambda>x. True) supply_chain_cache_key (map_of simulated_supply_chains)
               (fst r)"
    unfolding r_def using assms supply_chain_inj_keys
    by (rule lookup_with_cache_coherent) simp
  have f: "fetch_supply_chain_status E c identifier query_details ts =
             (fst r,
              case snd r of
                Some d \<Rightarrow>
                  if d \<noteq> [] then supply_chain_success E d identifier ts
                  else Some (supply_chain_failure identifier ts)
              | None \<Rightarrow> Some (supply_chain_failure identifier ts))"
    unfolding fetch_supply_chain_status_def Let_def split_def r_def fst_conv snd_conv
    by (rule refl)
  show ?thesis
  proof (cases "map_of simulated_supply_chains identifier")
    case None
    with f res coh show ?thesis by (simp add: supply_chain_failure_shape)
  next
    case (Some d)
    from map_of_list_all [OF supply_chain_records_ok Some] obtain envelope where
      "d \<noteq> []" "supply_chain_success E d identifier ts = Some envelope"
      "well_shaped ts envelope"
      by blast
    with f res coh Some show ?thesis by simp
  qed
qed

lemma reputation_success_ok:
  assumes "reputation_record_ok d"
  shows "\<exists>envelope. reputation_success E d identifier ts = Some envelope
           \<and> well_shaped ts envelope"
proof -
  from assms obtain n i m a j where
    "map_of d ''name'' = Some n" "map_of d ''did'' = Some i"
    "map_of d ''verificationMethod'' = Some m" "map_of d ''attesters'' = Some a"
    "join_value '', '' a = Some j"
    by (auto simp: reputation_record_ok_def split: option.splits)
  then show ?thesis
    by (simp add: reputation_success_def reputation_payload_def reputation_summary_def
        well_shaped_def)
qed

lemma reputation_records_ok:
  "list_all (\<lambda>aspects. list_all reputation_record_ok (map snd aspects))
     (map snd simulated_reputation_data)"
  by (simp add: simulated_reputation_data_def reputation_record_ok_def)

lemma reputation_unknown_shape: "well_shaped ts (reputation_unknown identifier ts)"
  by (simp add: reputation_unknown_def well_shaped_def)

lemma reputation_no_aspect_shape:
  "well_shaped ts (reputation_no_aspect available aspect identifier ts)"
  by (simp add: reputation_no_aspect_def well_shaped_def)

lemma fetch_reputation_score_shape:
  assumes "coherent reputation_known reputation_key_of reputation_store c"
  shows "coherent reputation_known reputation_key_of reputation_store
           (fst (fetch_reputation_score E c identifier query_details ts))
         \<and> (\<exists>envelope. snd (fetch_reputation_score E c identifier query_details ts) =
                          Some envelope
                        \<and> well_shaped ts envelope)"
proof -
  define nid where "nid = normalize_reputation_identifier identifier"
  show ?thesis
  proof (cases "map_of simulated_reputation_data nid")
    case None
    then have "fetch_reputation_score E c identifier query_details ts =
                 (c, Some (reputation_unknown identifier ts))"
      by (simp add: fetch_reputation_score_def nid_def)
    with assms show ?thesis by (simp add: reputation_unknown_shape)
  next
    case (Some aspects)
    define aspect where
      "aspect = select_aspect (map fst aspects) (requested_aspect query_details) nid"
    define r where
      "r = reputation_lookup_with_cache E c (reputation_key_of (nid, aspect))
             (reputation_store (nid, aspect))"
    have known: "reputation_known (nid, aspect)"
      using Some by (simp add: reputation_known_def)
    have store: "reputation_store (nid, aspect) = map_of aspects aspect"
      using Some by (simp add: reputation_store_def)
    have res: "snd r = reputation_store (nid, aspect)"
      unfolding r_def using assms known by (rule reputation_lookup_with_cache_result)
    have coh: "coherent reputation_known reputation_key_of reputation_store (fst r)"
      unfolding r_def using assms reputation_inj_keys known
      by (rule reputation_lookup_with_cache_coherent)
    have "fetch_reputation_score E c identifier query_details ts =
           (let (c', reputation_data) =
                  reputation_lookup_with_cache E c (reputation_cache_key nid aspect)
                    (map_of aspects aspect)
            in (c',
                case reputation_data of
                  Some d \<Rightarrow>
                    if d \<noteq> [] then reputation_success E d identifier ts
                    else Some (reputation_no_aspect (map fst aspects) aspect identifier ts)
                | None \<Rightarrow> Some (reputation_no_aspect (map fst aspects) aspect identifier ts)))"
      using Some
      unfolding fetch_reputation_score_def Let_def nid_def aspect_def
      by simp
    then have f: "fetch_reputation_score E c identifier query_details ts =
             (fst r,
              case snd r of
                Some d \<Rightarrow>
                  if d \<noteq> [] then reputation_success E d identifier ts
                  else Some (reputation_no_aspect (map fst aspects) aspect identifier ts)
              | None \<Rightarrow> Some (reputation_no_aspect (map fst aspects) aspect identifier ts))"
      unfolding r_def store reputation_key_of_def split_def fst_conv snd_conv
      by (simp add: Let_def)
    show ?thesis
    proof (cases "map_of aspects aspect")
      case None
      with f res coh store show ?thesis by (simp add: reputation_no_aspect_shape)
    next
      case inner: (Some d)
      have "list_all reputation_record_ok (map snd aspects)"
        using map_of_list_all [OF reputation_records_ok Some] .
      then have ok: "reputation_record_ok d"
        using inner by (rule map_of_list_all)
      then have "d \<noteq> []" by (simp add: reputation_record_ok_def)
      moreover from reputation_success_ok [OF ok] obtain envelope where
        "reputation_success E d identifier ts = Some envelope" "well_shaped ts envelope"
        by blast
      ultimately show ?thesis using f res coh store inner by simp
    qed
  qed
qed

lemma crypto_failure_shape:
  "message \<noteq> [] \<Longrightarrow> summary \<noteq> [] \<Longrightarrow>
     well_shaped ts (crypto_failure identifier source summary ts message)"
  by (simp add: crypto_failure_def well_shaped_def)

lemma fetch_crypto_price_shape:
  "well_shaped ts (fetch_crypto_price E identifier query_details ts)"
proof -
  define vs where "vs = crypto_vs_currency query_details"
  define url where "url = COINGECKO_API_URL @ ''/simple/price?ids='' @ identifier
                @ ''&vs_currencies='' @ vs"
  show ?thesis
  proof (cases "http_get E url")
    case (JsonBody api_data)
    show ?thesis
    proof (cases "crypto_price_of api_data identifier vs")
      case (Inl e)
      with JsonBody show ?thesis
        unfolding fetch_crypto_price_def Let_def vs_def [symmetric] url_def [symmetric]
        by (simp add: crypto_failure_shape)
    next
      case (Inr found)
      show ?thesis
      proof (cases found)
        case None
        with Inr JsonBody show ?thesis
          unfolding fetch_crypto_price_def Let_def vs_def [symmetric] url_def [symmetric]
          by (simp add: crypto_failure_shape)
      next
        case (Some price)
        with Inr JsonBody show ?thesis
          unfolding fetch_crypto_price_def Let_def vs_def [symmetric] url_def [symmetric]
          by (simp add: well_shaped_def)
      qed
    qed
  qed (unfold fetch_crypto_price_def Let_def vs_def [symmetric] url_def [symmetric],
      simp_all add: crypto_failure_shape)
qed

lemma fetch_verifiable_data_shape:
  assumes "caches_ok st"
  shows "caches_ok (fst (fetch_verifiable_data E st data_type identifier query_details))
         \<and> (\<exists>envelope.
               snd (fetch_verifiable_data E st data_type identifier query_details) =
                 Some envelope
               \<and> well_shaped (utc_iso E @ ''Z'') envelope)"
proof -
  define ts where "ts = utc_iso E @ ''Z''"
  consider (crypto) "lower data_type = ''crypto_price''"
    | (education) "lower data_type = ''education_credential''"
    | (supply_chain) "lower data_type = ''supply_chain_status''"
    | (carbon) "lower data_type = ''carbon_footprint''"
    | (reputation) "lower data_type = ''reputation_score''"
    | (other) "lower data_type \<notin> set supported_types"
    by (auto simp: supported_types_def)
  then show ?thesis
  proof cases
    case crypto
    then show ?thesis
      using assms fetch_crypto_price_shape [of ts E "identifier" query_details]
      by (simp add: fetch_verifiable_data_def Let_def ts_def)
  next
    case education
    then show ?thesis
      using assms
        fetch_education_credential_shape
          [of "education_cache st" E "identifier" query_details ts]
      by (simp add: fetch_verifiable_data_def Let_def split_def ts_def caches_ok_def)
  next
    case supply_chain
    then show ?thesis
      using assms
        fetch_supply_chain_status_shape
          [of "supply_chain_cache st" E "identifier" query_details ts]
      by (simp add: fetch_verifiable_data_def Let_def split_def ts_def caches_ok_def)
  next
    case carbon
    then show ?thesis
      using assms
        fetch_carbon_footprint_shape
          [of "carbon_footprint_cache st" E "identifier" query_details ts]
      by (simp add: fetch_verifiable_data_def Let_def split_def ts_def caches_ok_def)
  next
    case reputation
    then show ?thesis
      using assms
        fetch_reputation_score_shape
          [of "reputation_cache st" E "identifier" query_details ts]
      by (simp add: fetch_verifiable_data_def Let_def split_def ts_def caches_ok_def)
  next
    case other
    then show ?thesis
      using assms
      by (simp add: fetch_unsupported unsupported_def well_shaped_def
          unsupported_message_nonempty)
  qed
qed

lemma caches_ok_empty: "caches_ok empty_caches"
  by (simp add: caches_ok_def empty_caches_def coherent_empty)

lemma reachable_caches_ok: "reachable st \<Longrightarrow> caches_ok st"
proof (induction rule: reachable.induct)
  case start
  show ?case by (rule caches_ok_empty)
next
  case (call st E data_type ident query_details)
  from fetch_verifiable_data_shape [OF call.IH]
  show ?case by (rule conjunct1)
qed

lemma well_shapedD:
  assumes "well_shaped ts envelope"
  shows "\<exists>payload summary.
           map_of envelope ''data_payload'' = Some (JDict payload)
           \<and> map_of envelope ''verification_summary'' = Some (JStr summary)
           \<and> summary \<noteq> []
           \<and> map_of envelope ''timestamp'' = Some (JStr ts)
           \<and> (map_of envelope ''error_message'' = None
                \<or> (\<exists>message. map_of envelope ''error_message'' = Some (JStr message)
                      \<and> message \<noteq> [] \<and> payload = []))"
proof -
  from assms obtain payload where
    p: "map_of envelope ''data_payload'' = Some (JDict payload)"
    by (cases "map_of envelope ''data_payload''"; cases "the (map_of envelope ''data_payload'')")
      (simp_all add: well_shaped_def)
  from assms p obtain summary where
    s: "map_of envelope ''verification_summary'' = Some (JStr summary)"
    by (cases "map_of envelope ''verification_summary''";
        cases "the (map_of envelope ''verification_summary'')")
      (simp_all add: well_shaped_def)
  from assms p s have rest: "summary \<noteq> []" "map_of envelope ''timestamp'' = Some (JStr ts)"
    and err: "case map_of envelope ''error_message'' of
                None \<Rightarrow> True
              | Some (JStr message) \<Rightarrow> payload = [] \<and> message \<noteq> []
              | Some other \<Rightarrow> False"
    by (simp_all add: well_shaped_def)
  have "map_of envelope ''error_message'' = None
                \<or> (\<exists>message. map_of envelope ''error_message'' = Some (JStr message)
                      \<and> message \<noteq> [] \<and> payload = [])"
    using err
    by (cases "map_of envelope ''error_message''";
        cases "the (map_of envelope ''error_message'')") simp_all
  with p s rest show ?thesis by blast
qed

lemma cache_fresh_iff:
  "cache_fresh E c key \<longleftrightarrow>
     (\<exists>e. c key = Some e \<and> utc_check E - cached_at e < 300 * 1000000)"
  by (cases "c key") (simp_all add: cache_fresh_def CACHE_EXPIRY_SECONDS_def)

section \<open>The claims\<close>

subsection \<open>C8: normalisation is idempotent\<close>



subsection \<open>C4: the capitalised substring heuristics are dead\<close>

text \<open>
  C4. In the aspect selection of \<open>fetch_reputation_score\<close>, the three branches that test
  \<open>"Developer"\<close>, \<open>"Service"\<close> and \<open>"DAO"\<close> for membership in the lowered normalised
  identifier never fire, for any identifier, any set of available aspects and any
  requested aspect: none of the three literals occurs in a lowered string, so the
  selection is the requested aspect when the entity has it, otherwise the result of the
  two prefix rules, otherwise \<open>"general"\<close>.
\<close>

theorem reputation_heuristics_never_select:
  "\<not> sublist ''Developer'' (lower nid) \<and> \<not> sublist ''Service'' (lower nid)
   \<and> \<not> sublist ''DAO'' (lower nid)
   \<and> select_aspect available requested nid =
       (if (case requested of Some r \<Rightarrow> r \<in> set available | None \<Rightarrow> False)
          then (case requested of Some r \<Rightarrow> r | None \<Rightarrow> ''general'')
        else if prefix ''dev'' nid \<and> ''developer'' \<in> set available then ''developer''
        else if prefix ''svc'' nid \<and> ''service'' \<in> set available then ''service''
        else ''general'')"
  by (simp add: select_aspect_def Developer_not_in_lower Service_not_in_lower DAO_not_in_lower)

text \<open>
  The entity \<open>trustdata_service\<close> has a \<open>service\<close> aspect and its identifier contains
  \<open>service\<close>, yet without a requested aspect the selection is \<open>general\<close>.
\<close>

theorem reputation_heuristics_never_select_witness:
  "select_aspect [''general'', ''service''] None ''trustdata_service'' = ''general''"
  using reputation_heuristics_never_select
    [of "''trustdata_service''" "[''general'', ''service'']" None]
  by simp

subsection \<open>C2: scope priority of the carbon resolver\<close>

text \<open>
  C2. The scope \<open>fetch_carbon_footprint\<close> uses for the cache key and the lookup (last
  conjunct) is the one the specification's priority gives: the requested scope if the normalised
  identifier exists there, otherwise the first of product, company, activity that
  contains it, otherwise product. This holds for every membership test (so also for an
  identifier present in several scopes) and in particular for the source's data set; a
  requested scope that does not contain the identifier gives the same scope as no
  request at all.
\<close>

theorem carbon_scope_priority:
  "choose_scope present requested (detect_scope present) = spec_scope_priority present requested
   \<and> carbon_data_scope nid query_details =
       spec_scope_priority (in_scope nid) (requested_scope query_details)
   \<and> (requested_scope query_details = Some r \<and> \<not> in_scope nid r
        \<longrightarrow> carbon_data_scope nid query_details = carbon_data_scope nid None)
   \<and> fst (fetch_carbon_footprint E c ident query_details ts) =
       fst (lookup_with_cache E c
              (carbon_cache_key
                 (carbon_data_scope (normalize_carbon_identifier ident) query_details)
                 (normalize_carbon_identifier ident))
              (map_of (simulated_carbon_data
                         (carbon_data_scope (normalize_carbon_identifier ident) query_details))
                 (normalize_carbon_identifier ident)))"
proof -
  have d: "fst (fetch_carbon_footprint E c ident query_details ts) =
       fst (lookup_with_cache E c
              (carbon_cache_key
                 (carbon_data_scope (normalize_carbon_identifier ident) query_details)
                 (normalize_carbon_identifier ident))
              (map_of (simulated_carbon_data
                         (carbon_data_scope (normalize_carbon_identifier ident) query_details))
                 (normalize_carbon_identifier ident)))"
    unfolding fetch_carbon_footprint_def carbon_data_scope_def Let_def split_def fst_conv
    by (rule refl)
  have a: "choose_scope p rq (detect_scope p) = spec_scope_priority p rq" for p rq
    by (cases rq)
      (simp_all add: choose_scope_def detect_scope_def spec_scope_priority_def
        spec_first_containing_def)
  have b: "carbon_data_scope nid qd = spec_scope_priority (in_scope nid) (requested_scope qd)"
    for qd
    by (simp add: carbon_data_scope_def a)
  have c: "requested_scope None = None"
    by (simp add: requested_scope_def)
  have "choose_scope present requested (detect_scope present) =
          spec_scope_priority present requested
        \<and> carbon_data_scope nid query_details =
          spec_scope_priority (in_scope nid) (requested_scope query_details)
        \<and> (requested_scope query_details = Some r \<and> \<not> in_scope nid r
             \<longrightarrow> carbon_data_scope nid query_details = carbon_data_scope nid None)"
    by (simp add: a b c spec_scope_priority_def)
  with d show ?thesis by blast
qed

text \<open>
  Example 2 of the specification: \<open>macbook_pro\<close> with \<open>scope=company\<close> resolves to the
  product scope, as it does without a requested scope.
\<close>

theorem carbon_scope_priority_witness:
  "requested_scope (Some ''scope=company'') = Some Company
   \<and> \<not> in_scope ''macbook_pro'' Company
   \<and> carbon_data_scope ''macbook_pro'' (Some ''scope=company'') = Product
   \<and> carbon_data_scope ''macbook_pro'' None = Product"
proof -
  have rq: "requested_scope (Some ''scope=company'') = Some Company"
    by (simp add: requested_scope_def)
  have absent: "\<not> in_scope ''macbook_pro'' Company"
    by (simp add: in_scope_def)
  have none: "carbon_data_scope ''macbook_pro'' None = Product"
    by (simp add: carbon_data_scope_def choose_scope_def detect_scope_def in_scope_def
        requested_scope_def)
  have "requested_scope (Some ''scope=company'') = Some Company
          \<and> \<not> in_scope ''macbook_pro'' Company
        \<longrightarrow> carbon_data_scope ''macbook_pro'' (Some ''scope=company'') =
              carbon_data_scope ''macbook_pro'' None"
    using carbon_scope_priority [of "in_scope ''macbook_pro''" None "''macbook_pro''"
        "Some ''scope=company''" Company]
    by blast
  with rq absent none show ?thesis by simp
qed

subsection \<open>C3: an error message is authoritative for the formatter\<close>

text \<open>
  C3. For every response whose \<open>error_message\<close> is set and non-empty,
  \<open>format_response_for_chat\<close> returns the fixed Error Report block around that message.
  The text does not depend on the payload, the verification summary, the source
  description or the time stamp, nor on the rest of the formatter (\<open>render\<close>), which is
  not reached.
\<close>

theorem error_report_authoritative:
  assumes "error_message r = Some m" and "m \<noteq> []"
  shows "format_response_for_chat render r =
           Some (''# Error Report\<newline>'' @ ''**Message:** '' @ m @ ''\<newline>\<newline>''
                 @ ''_Please try again or rephrase your request._'')
         \<and> format_response_for_chat render'
             (r\<lparr>data_payload := p, verification_summary := v, source_description := s,
                timestamp := t\<rparr>) =
           format_response_for_chat render r"
  using assms by (simp add: format_response_for_chat_def error_report_def)

theorem error_report_authoritative_witness:
  "error_message example_error_response = Some ''boom''
   \<and> data_payload example_error_response = Some [(''price'', JInt 1)]
   \<and> format_response_for_chat (\<lambda>r. Some ''report'') example_error_response =
       Some (''# Error Report\<newline>**Message:** boom\<newline>\<newline>''
             @ ''_Please try again or rephrase your request._'')"
  using error_report_authoritative
    [of example_error_response "''boom''" "\<lambda>r. Some ''report''"]
  by (simp add: example_error_response_def)

subsection \<open>C9: routing of a completed response\<close>

text \<open>
  C9. \<open>handle_internal_response\<close> on a response with a session id: when the storage
  holds no binding for the session id, nothing is sent and one error line is logged;
  when the storage binds the session id to an address, every message the handler sends
  goes to that address, and (the address being non-empty and the formatter returning a
  text) exactly one message is sent: the formatted report, closing the session.
\<close>

theorem completed_response_routing:
  "(response_session_id response \<noteq> []
      \<and> storage ctx (response_session_id response) = None
    \<longrightarrow> outbox (handle_internal_response render describe ctx sender response) = outbox ctx
        \<and> (\<exists>line. logger (handle_internal_response render describe ctx sender response) =
                    logger ctx @ [(LogError, line)]))
   \<and> (storage ctx (response_session_id response) = Some address
    \<longrightarrow> (\<exists>sent. outbox (handle_internal_response render describe ctx sender response) =
                    outbox ctx @ sent
               \<and> list_all (\<lambda>m. fst m = address) sent))
   \<and> (response_session_id response \<noteq> []
      \<and> storage ctx (response_session_id response) = Some address \<and> address \<noteq> []
      \<and> formatted_text_response render response = Some report
    \<longrightarrow> outbox (handle_internal_response render describe ctx sender response) =
          outbox ctx @ [(address, [TextContent report, EndSessionContent])])"
  by (auto simp: handle_internal_response_def create_chat_message_def Let_def
      split: option.splits)

text \<open>
  Example 5 of the specification: once session \<open>S1\<close> is bound to address \<open>A\<close>, a
  response tagged \<open>S1\<close> is delivered to \<open>A\<close> only; without the binding it is dropped.
\<close>

theorem completed_response_routing_witness:
  "outbox (handle_internal_response (\<lambda>r. Some ''report'') (\<lambda>r. ''response'')
             example_context ''agent'' (DataResponse example_error_response)) = []
   \<and> outbox (handle_internal_response (\<lambda>r. Some ''report'') (\<lambda>r. ''response'')
             (bind_session example_context ''S1'' ''A'') ''agent''
             (DataResponse example_error_response)) =
       [(''A'', [TextContent (error_report ''boom''), EndSessionContent])]"
proof -
  have sid: "response_session_id (DataResponse example_error_response) = ''S1''"
    by (simp add: example_error_response_def)
  have unbound: "storage example_context ''S1'' = None"
    by (simp add: example_context_def)
  have bound: "storage (bind_session example_context ''S1'' ''A'') ''S1'' = Some ''A''"
    by (simp add: bind_session_def)
  have report: "formatted_text_response (\<lambda>r. Some ''report'')
               (DataResponse example_error_response) = Some (error_report ''boom'')"
    by (simp add: format_response_for_chat_def example_error_response_def)
  have "outbox (handle_internal_response (\<lambda>r. Some ''report'') (\<lambda>r. ''response'')
             example_context ''agent'' (DataResponse example_error_response)) =
        outbox example_context"
    using completed_response_routing
      [of "DataResponse example_error_response" example_context "\<lambda>r. Some ''report''"
        "\<lambda>r. ''response''" "''agent''" "''A''" "error_report ''boom''"]
      sid unbound
    by simp
  moreover have "outbox (handle_internal_response (\<lambda>r. Some ''report'') (\<lambda>r. ''response'')
             (bind_session example_context ''S1'' ''A'') ''agent''
             (DataResponse example_error_response)) =
        outbox (bind_session example_context ''S1'' ''A'')
        @ [(''A'', [TextContent (error_report ''boom''), EndSessionContent])]"
    using completed_response_routing
      [of "DataResponse example_error_response" "bind_session example_context ''S1'' ''A''"
        "\<lambda>r. Some ''report''" "\<lambda>r. ''response''" "''agent''" "''A''"
        "error_report ''boom''"]
      sid bound report
    by simp
  ultimately show ?thesis
    by (simp add: example_context_def bind_session_def)
qed

subsection \<open>C1: an unsupported data type\<close>

text \<open>
  C1. For every request whose lowered \<open>data_type\<close> is none of the five supported types,
  \<open>fetch_verifiable_data\<close> returns (it does not raise, and it leaves the caches as they
  are) a dictionary whose \<open>data_payload\<close> is the empty dictionary and whose
  \<open>error_message\<close> is a non-empty string in which each of the five supported type names
  occurs.
\<close>

theorem unsupported_data_type:
  assumes "lower data_type \<notin> set supported_types"
  shows "\<exists>envelope message.
           fetch_verifiable_data E st data_type identifier query_details = (st, Some envelope)
           \<and> map_of envelope ''data_payload'' = Some (JDict [])
           \<and> map_of envelope ''error_message'' = Some (JStr message)
           \<and> message \<noteq> []
           \<and> sublist ''crypto_price'' message
           \<and> sublist ''education_credential'' message
           \<and> sublist ''supply_chain_status'' message
           \<and> sublist ''carbon_footprint'' message
           \<and> sublist ''reputation_score'' message"
proof (intro exI conjI)
  show "fetch_verifiable_data E st data_type identifier query_details =
          (st, Some (unsupported data_type identifier (utc_iso E @ ''Z'')))"
    using assms by (rule fetch_unsupported)
  show "map_of (unsupported data_type identifier (utc_iso E @ ''Z'')) ''data_payload'' =
          Some (JDict [])"
    by (simp add: unsupported_def)
  show "map_of (unsupported data_type identifier (utc_iso E @ ''Z'')) ''error_message'' =
          Some (JStr (unsupported_message data_type))"
    by (simp add: unsupported_def)
  show "unsupported_message data_type \<noteq> []"
    by (rule unsupported_message_nonempty)
qed (rule unsupported_message_names)+

text \<open>Example 4 of the specification: \<open>stock_price\<close> for \<open>aapl\<close>.\<close>

theorem unsupported_data_type_witness:
  "lower ''stock_price'' \<notin> set supported_types
   \<and> fetch_verifiable_data example_env empty_caches ''stock_price'' ''aapl'' None =
       (empty_caches, Some (unsupported ''stock_price'' ''aapl'' ''2024-01-01T00:00:00Z''))"
proof -
  have h: "lower ''stock_price'' \<notin> set supported_types"
    by (simp add: lower_def lower_char_def supported_types_def)
  from unsupported_data_type [OF h, of example_env empty_caches "''aapl''" None]
  obtain envelope message where
    e: "fetch_verifiable_data example_env empty_caches ''stock_price'' ''aapl'' None =
          (empty_caches, Some envelope)"
    by blast
  have "fetch_verifiable_data example_env empty_caches ''stock_price'' ''aapl'' None =
          (empty_caches, Some (unsupported ''stock_price'' ''aapl'' ''2024-01-01T00:00:00Z''))"
    using h by (simp add: fetch_unsupported example_env_def)
  with h e show ?thesis by simp
qed

subsection \<open>C10: the shape of every returned dictionary\<close>

text \<open>
  C10. Every call of \<open>fetch_verifiable_data\<close>, in any state of the caches the process
  can reach, for any data type, identifier and query details, returns a dictionary (it
  does not raise) in which \<open>data_payload\<close> is a dictionary, \<open>verification_summary\<close> is
  a non-empty string and \<open>timestamp\<close> is the router's time stamp. When the dictionary
  has an \<open>error_message\<close>, that is a non-empty string and the payload is the empty
  dictionary, so an error message always comes with a verification summary.
\<close>

theorem envelope_always_well_formed:
  assumes "reachable st"
  shows "\<exists>st' envelope payload summary.
           fetch_verifiable_data E st data_type identifier query_details = (st', Some envelope)
           \<and> reachable st'
           \<and> map_of envelope ''data_payload'' = Some (JDict payload)
           \<and> map_of envelope ''verification_summary'' = Some (JStr summary)
           \<and> summary \<noteq> []
           \<and> map_of envelope ''timestamp'' = Some (JStr (utc_iso E @ ''Z''))
           \<and> (map_of envelope ''error_message'' = None
                \<or> (\<exists>message. map_of envelope ''error_message'' = Some (JStr message)
                      \<and> message \<noteq> [] \<and> payload = []))"
proof -
  define r where "r = fetch_verifiable_data E st data_type identifier query_details"
  from assms have "caches_ok st" by (rule reachable_caches_ok)
  from fetch_verifiable_data_shape [OF this, of E data_type "identifier" query_details]
  obtain envelope where
    e: "snd r = Some envelope" and w: "well_shaped (utc_iso E @ ''Z'') envelope"
    unfolding r_def by blast
  have re: "reachable (fst r)"
    unfolding r_def using assms by (rule reachable.call)
  have eq: "r = (fst r, Some envelope)"
    using e by (simp add: prod_eq_iff)
  from well_shapedD [OF w] obtain payload summary where
    "map_of envelope ''data_payload'' = Some (JDict payload)"
    "map_of envelope ''verification_summary'' = Some (JStr summary)"
    "summary \<noteq> []"
    "map_of envelope ''timestamp'' = Some (JStr (utc_iso E @ ''Z''))"
    "map_of envelope ''error_message'' = None
       \<or> (\<exists>message. map_of envelope ''error_message'' = Some (JStr message)
             \<and> message \<noteq> [] \<and> payload = [])"
    by blast
  with re eq show ?thesis
    unfolding r_def by (intro exI [of _ "fst r"] exI [of _ envelope] exI [of _ payload]
        exI [of _ summary]) (simp add: r_def)
qed

text \<open>Example 1 of the specification, on the empty caches.\<close>

theorem envelope_always_well_formed_witness:
  "reachable empty_caches
   \<and> (\<exists>st' envelope summary.
         fetch_verifiable_data example_env empty_caches ''carbon_footprint'' ''MacBook_Pro''
           None = (st', Some envelope)
         \<and> map_of envelope ''verification_summary'' = Some (JStr summary)
         \<and> summary \<noteq> []
         \<and> map_of envelope ''timestamp'' = Some (JStr ''2024-01-01T00:00:00Z''))"
proof -
  have ts: "utc_iso example_env @ ''Z'' = ''2024-01-01T00:00:00Z''"
    by (simp add: example_env_def)
  from envelope_always_well_formed
    [OF reachable.start, of example_env "''carbon_footprint''" "''MacBook_Pro''" None]
  obtain st' envelope payload summary where
    "fetch_verifiable_data example_env empty_caches ''carbon_footprint'' ''MacBook_Pro''
           None = (st', Some envelope)"
    "map_of envelope ''verification_summary'' = Some (JStr summary)"
    "summary \<noteq> []"
    "map_of envelope ''timestamp'' = Some (JStr (utc_iso example_env @ ''Z''))"
    by blast
  then have "\<exists>st' envelope summary.
         fetch_verifiable_data example_env empty_caches ''carbon_footprint'' ''MacBook_Pro''
           None = (st', Some envelope)
         \<and> map_of envelope ''verification_summary'' = Some (JStr summary)
         \<and> summary \<noteq> []
         \<and> map_of envelope ''timestamp'' = Some (JStr ''2024-01-01T00:00:00Z'')"
    unfolding ts by blast
  with reachable.start show ?thesis by (rule conjI)
qed

subsection \<open>C6: the cache blocks\<close>

text \<open>
  C6, as the source has it. For every cache key, in the cache block of
  \<open>fetch_carbon_footprint\<close> and in that of \<open>fetch_reputation_score\<close>: an entry is fresh
  when it exists and is strictly less than 300 seconds old. A fresh entry is returned,
  the cache stays as it is, and the result does not depend on what the data set holds
  (\<open>stored\<close>). Otherwise the record is looked up in the data set and returned; when the
  data set holds a record, it is stored under the key with the new time stamp,
  replacing any entry of that key, and when the data set holds none, nothing is stored
  and the cache stays as it is. A second resolution of the key less than 300 seconds
  after the record was stored returns the same record, whatever the data set holds then.
\<close>

theorem cache_lookup_semantics:
  "(cache_fresh E c key \<longleftrightarrow>
      (\<exists>e. c key = Some e \<and> utc_check E - cached_at e < 300 * 1000000))
   \<and> (c key = Some e \<and> utc_check E - cached_at e < 300 * 1000000
      \<longrightarrow> lookup_with_cache E c key stored = (c, Some (data e))
          \<and> reputation_lookup_with_cache E c key stored = (c, Some (data e)))
   \<and> (\<not> cache_fresh E c key \<and> stored = Some d \<and> d \<noteq> []
      \<longrightarrow> lookup_with_cache E c key stored =
            (c(key \<mapsto> \<lparr>data = d, cached_at = utc_store E\<rparr>), Some d)
          \<and> reputation_lookup_with_cache E c key stored =
            (c(key \<mapsto> \<lparr>data = d, cached_at = utc_store E\<rparr>), Some d))
   \<and> (\<not> cache_fresh E c key \<and> stored = None
      \<longrightarrow> lookup_with_cache E c key stored = (c, None)
          \<and> reputation_lookup_with_cache E c key stored = (c, None))
   \<and> (\<not> cache_fresh E c key \<and> stored = Some d \<and> d \<noteq> []
        \<and> utc_check E' - utc_store E < 300 * 1000000
      \<longrightarrow> snd (lookup_with_cache E' (fst (lookup_with_cache E c key stored)) key stored') =
            Some d
          \<and> snd (reputation_lookup_with_cache E'
                  (fst (reputation_lookup_with_cache E c key stored)) key stored') = Some d)"
proof (intro conjI impI)
  show "cache_fresh E c key \<longleftrightarrow>
      (\<exists>e. c key = Some e \<and> utc_check E - cached_at e < 300 * 1000000)"
    by (rule cache_fresh_iff)
next
  assume "c key = Some e \<and> utc_check E - cached_at e < 300 * 1000000"
  then have f: "cache_fresh E c key" and e: "c key = Some e"
    by (auto simp: cache_fresh_iff)
  from f e show "lookup_with_cache E c key stored = (c, Some (data e))"
    by (simp add: lookup_with_cache_def)
  from f e show "reputation_lookup_with_cache E c key stored = (c, Some (data e))"
    by (simp add: reputation_lookup_with_cache_def)
next
  assume "\<not> cache_fresh E c key \<and> stored = Some d \<and> d \<noteq> []"
  then show "lookup_with_cache E c key stored =
            (c(key \<mapsto> \<lparr>data = d, cached_at = utc_store E\<rparr>), Some d)"
    and "reputation_lookup_with_cache E c key stored =
            (c(key \<mapsto> \<lparr>data = d, cached_at = utc_store E\<rparr>), Some d)"
    by (simp_all add: lookup_with_cache_def reputation_lookup_with_cache_def)
next
  assume "\<not> cache_fresh E c key \<and> stored = None"
  then show "lookup_with_cache E c key stored = (c, None)"
    and "reputation_lookup_with_cache E c key stored = (c, None)"
    by (simp_all add: lookup_with_cache_def reputation_lookup_with_cache_def)
next
  assume a: "\<not> cache_fresh E c key \<and> stored = Some d \<and> d \<noteq> []
        \<and> utc_check E' - utc_store E < 300 * 1000000"
  define c' where "c' = c(key \<mapsto> \<lparr>data = d, cached_at = utc_store E\<rparr>)"
  have first: "lookup_with_cache E c key stored = (c', Some d)"
    "reputation_lookup_with_cache E c key stored = (c', Some d)"
    using a by (simp_all add: lookup_with_cache_def reputation_lookup_with_cache_def c'_def)
  have fresh: "cache_fresh E' c' key"
    using a by (simp add: cache_fresh_iff c'_def)
  have hit: "c' key = Some \<lparr>data = d, cached_at = utc_store E\<rparr>"
    by (simp add: c'_def)
  show "snd (lookup_with_cache E' (fst (lookup_with_cache E c key stored)) key stored') =
            Some d"
    unfolding first fst_conv using fresh hit by (simp add: lookup_with_cache_def)
  show "snd (reputation_lookup_with_cache E'
                  (fst (reputation_lookup_with_cache E c key stored)) key stored') = Some d"
    unfolding first fst_conv using fresh hit by (simp add: reputation_lookup_with_cache_def)
qed

text \<open>
  A lookup that stores the record, a second lookup that is served from the cache, and a
  lookup that finds nothing.
\<close>

theorem cache_lookup_semantics_witness:
  "lookup_with_cache example_env Map.empty ''carbon_product_macbook_pro''
       (Some [(''name'', JStr ''EcoBook Pro 2023'')]) =
     (Map.empty(''carbon_product_macbook_pro'' \<mapsto>
        \<lparr>data = [(''name'', JStr ''EcoBook Pro 2023'')], cached_at = 0\<rparr>),
      Some [(''name'', JStr ''EcoBook Pro 2023'')])
   \<and> snd (lookup_with_cache example_env
            (fst (lookup_with_cache example_env Map.empty ''carbon_product_macbook_pro''
                    (Some [(''name'', JStr ''EcoBook Pro 2023'')])))
            ''carbon_product_macbook_pro'' None) =
       Some [(''name'', JStr ''EcoBook Pro 2023'')]
   \<and> lookup_with_cache example_env Map.empty ''carbon_product_unknown_widget'' None =
       (Map.empty, None)"
proof -
  let ?d = "[(''name'', JStr ''EcoBook Pro 2023'')]"
  have nf: "\<not> cache_fresh example_env Map.empty k" for k
    by (simp add: cache_fresh_def)
  have t: "utc_check example_env - utc_store example_env < 300 * 1000000"
    and z: "utc_store example_env = 0"
    by (simp_all add: example_env_def)
  have th: "(\<not> cache_fresh example_env Map.empty ''carbon_product_macbook_pro''
               \<and> Some ?d = Some ?d \<and> ?d \<noteq> []
             \<longrightarrow> lookup_with_cache example_env Map.empty ''carbon_product_macbook_pro''
                   (Some ?d) =
                 (Map.empty(''carbon_product_macbook_pro'' \<mapsto>
                    \<lparr>data = ?d, cached_at = utc_store example_env\<rparr>), Some ?d)
               \<and> reputation_lookup_with_cache example_env Map.empty
                   ''carbon_product_macbook_pro'' (Some ?d) =
                 (Map.empty(''carbon_product_macbook_pro'' \<mapsto>
                    \<lparr>data = ?d, cached_at = utc_store example_env\<rparr>), Some ?d))
            \<and> (\<not> cache_fresh example_env Map.empty ''carbon_product_macbook_pro''
                 \<and> Some ?d = Some ?d \<and> ?d \<noteq> []
                 \<and> utc_check example_env - utc_store example_env < 300 * 1000000
             \<longrightarrow> snd (lookup_with_cache example_env
                       (fst (lookup_with_cache example_env Map.empty
                               ''carbon_product_macbook_pro'' (Some ?d)))
                       ''carbon_product_macbook_pro'' None) = Some ?d
               \<and> snd (reputation_lookup_with_cache example_env
                       (fst (reputation_lookup_with_cache example_env Map.empty
                               ''carbon_product_macbook_pro'' (Some ?d)))
                       ''carbon_product_macbook_pro'' None) = Some ?d)"
    using cache_lookup_semantics
      [of example_env Map.empty "''carbon_product_macbook_pro''" "\<lparr>data = [], cached_at = 0\<rparr>" "Some ?d" ?d
        example_env None]
    by blast
  have th': "\<not> cache_fresh example_env Map.empty ''carbon_product_unknown_widget''
               \<and> None = (None :: pydict option)
             \<longrightarrow> lookup_with_cache example_env Map.empty ''carbon_product_unknown_widget''
                   None = (Map.empty, None)
               \<and> reputation_lookup_with_cache example_env Map.empty
                   ''carbon_product_unknown_widget'' None = (Map.empty, None)"
    using cache_lookup_semantics
      [of example_env Map.empty "''carbon_product_unknown_widget''" "\<lparr>data = [], cached_at = 0\<rparr>" None]
    by blast
  from th nf t have
    "lookup_with_cache example_env Map.empty ''carbon_product_macbook_pro'' (Some ?d) =
       (Map.empty(''carbon_product_macbook_pro'' \<mapsto>
          \<lparr>data = ?d, cached_at = utc_store example_env\<rparr>), Some ?d)"
    "snd (lookup_with_cache example_env
            (fst (lookup_with_cache example_env Map.empty
                    ''carbon_product_macbook_pro'' (Some ?d)))
            ''carbon_product_macbook_pro'' None) = Some ?d"
    by blast+
  moreover from th' nf have
    "lookup_with_cache example_env Map.empty ''carbon_product_unknown_widget'' None =
       (Map.empty, None)"
    by blast
  ultimately show ?thesis
    unfolding z by (intro conjI)
qed

text \<open>
  The claim as the specification words it has every lookup that is not served from the
  cache store its result under the key. For an identifier no scope knows, the resolver
  returns the failure dictionary and the cache has no entry under the key afterwards.
\<close>

theorem cache_miss_not_stored_counterexample:
  "\<not> cache_fresh example_env Map.empty (carbon_cache_key Product ''unknown_widget'')
   \<and> snd (fetch_carbon_footprint example_env Map.empty ''unknown_widget'' None ''t'') =
       Some (carbon_failure None None ''unknown_widget'' ''t'')
   \<and> fst (fetch_carbon_footprint example_env Map.empty ''unknown_widget'' None ''t'')
         (carbon_cache_key Product ''unknown_widget'') = None"
proof -
  have n: "normalize_carbon_identifier ''unknown_widget'' = ''unknown_widget''"
    by (simp add: normalize_carbon_identifier_def lower_def lower_char_def)
  have absent: "in_scope ''unknown_widget'' s = False" for s
    by (cases s) (simp_all add: in_scope_def)
  have a2: "map_of (simulated_carbon_data s) ''unknown_widget'' = None" for s
    by (cases s) simp_all
  have nf: "\<not> cache_fresh example_env Map.empty k" for k
    by (simp add: cache_fresh_def)
  have "fetch_carbon_footprint example_env Map.empty ''unknown_widget'' None ''t'' =
          (Map.empty, Some (carbon_failure None None ''unknown_widget'' ''t''))"
    unfolding fetch_carbon_footprint_def n Let_def
    by (simp add: requested_scope_def detect_scope_def absent [abs_def] choose_scope_def a2
        lookup_with_cache_def nf)
  with nf show ?thesis by simp
qed

subsection \<open>C5: the identifier \<open>Alex Rodriguez\<close>\<close>

text \<open>
  C5, what the code does at the claim's input. \<open>normalize_reputation_identifier\<close> lowers
  \<open>Alex Rodriguez\<close> to \<open>alex rodriguez\<close> and keeps the space; the alias table has the
  key \<open>alex_rodriguez\<close>, not \<open>alex rodriguez\<close>, and the data set has no such entity. In
  every state of the caches the router therefore returns the not-found dictionary with
  an empty payload, not the record with overall score 92. The identifier
  \<open>alex_rodriguez\<close> does reach the alias.
\<close>

theorem alex_rodriguez_not_found:
  "normalize_reputation_identifier ''Alex Rodriguez'' = ''alex rodriguez''
   \<and> map_of name_mappings ''alex rodriguez'' = None
   \<and> map_of simulated_reputation_data ''alex rodriguez'' = None
   \<and> fetch_verifiable_data E st ''reputation_score'' ''Alex Rodriguez'' None =
       (st, Some (reputation_unknown ''Alex Rodriguez'' (utc_iso E @ ''Z'')))
   \<and> map_of (reputation_unknown ''Alex Rodriguez'' (utc_iso E @ ''Z'')) ''data_payload'' =
       Some (JDict [])
   \<and> normalize_reputation_identifier ''alex_rodriguez'' = ''alex_developer''"
proof -
  have l: "lower ''Alex Rodriguez'' = ''alex rodriguez''"
    by (simp add: lower_def lower_char_def char_of_eq_iff)
  have m: "map_of name_mappings ''alex rodriguez'' = None"
    by (simp add: name_mappings_def)
  have n: "normalize_reputation_identifier ''Alex Rodriguez'' = ''alex rodriguez''"
    by (simp add: normalize_reputation_identifier_def l m)
  have d: "map_of simulated_reputation_data ''alex rodriguez'' = None"
    by (simp add: simulated_reputation_data_def)
  have f: "fetch_reputation_score E c ''Alex Rodriguez'' None ts =
             (c, Some (reputation_unknown ''Alex Rodriguez'' ts))" for c ts
    by (simp add: fetch_reputation_score_def n d)
  have dt: "lower ''reputation_score'' = ''reputation_score''"
    by (simp add: lower_def lower_char_def char_of_eq_iff)
  have r: "fetch_verifiable_data E st ''reputation_score'' ''Alex Rodriguez'' None =
       (st, Some (reputation_unknown ''Alex Rodriguez'' (utc_iso E @ ''Z'')))"
    by (simp add: fetch_verifiable_data_def dt f)
  have l2: "lower ''alex_rodriguez'' = ''alex_rodriguez''"
    by (simp add: lower_def lower_char_def char_of_eq_iff)
  have n2: "normalize_reputation_identifier ''alex_rodriguez'' = ''alex_developer''"
    by (simp add: normalize_reputation_identifier_def l2 name_mappings_def)
  have p: "map_of (reputation_unknown ''Alex Rodriguez'' (utc_iso E @ ''Z''))
             ''data_payload'' = Some (JDict [])"
    by (simp add: reputation_unknown_def)
  from n m d r p n2 show ?thesis by (intro conjI)
qed

subsection \<open>C7: education identifiers reach the resolver as they were sent\<close>

text \<open>
  C7, what the code does at the claim's input. \<open>normalize_identifier\<close> maps \<open>Alex Chen\<close>
  to \<open>alex_chen\<close>, under which the data set has a record, but the router passes the
  identifier to \<open>fetch_education_credential\<close> as it was sent: the lookup and the cache
  key use \<open>Alex Chen\<close>, and on empty caches the router returns the not-found dictionary.
\<close>

theorem alex_chen_not_normalized:
  "normalize_identifier ''Alex Chen'' ''education_credential'' = ''alex_chen''
   \<and> map_of simulated_credentials ''alex_chen'' \<noteq> None
   \<and> map_of simulated_credentials ''Alex Chen'' = None
   \<and> fetch_verifiable_data E empty_caches ''education_credential'' ''Alex Chen''
       query_details =
       (empty_caches, Some (education_failure ''Alex Chen'' (utc_iso E @ ''Z'')))"
proof -
  have l: "lower ''Alex Chen'' = ''alex chen''"
    by (simp add: lower_def lower_char_def char_of_eq_iff)
  have n: "normalize_identifier ''Alex Chen'' ''education_credential'' = ''alex_chen''"
    by (simp add: normalize_identifier_def l replace_char_def)
  have a: "map_of simulated_credentials ''alex_chen'' \<noteq> None"
    by (simp add: simulated_credentials_def)
  have b: "map_of simulated_credentials ''Alex Chen'' = None"
    by (simp add: simulated_credentials_def)
  have nf: "\<not> cache_fresh E Map.empty k" for k
    by (simp add: cache_fresh_def)
  have f: "fetch_education_credential E Map.empty ''Alex Chen'' query_details ts =
             (Map.empty, Some (education_failure ''Alex Chen'' ts))" for ts
    by (simp add: fetch_education_credential_def lookup_with_cache_def nf b)
  have dt: "lower ''education_credential'' = ''education_credential''"
    by (simp add: lower_def lower_char_def char_of_eq_iff)
  have r: "fetch_verifiable_data E empty_caches ''education_credential'' ''Alex Chen''
       query_details =
       (empty_caches, Some (education_failure ''Alex Chen'' (utc_iso E @ ''Z'')))"
    by (simp add: fetch_verifiable_data_def dt f empty_caches_def)
  from n a b r show ?thesis by (intro conjI)
qed

end
